theory Spec2Isabelle
  imports Complex_Main
begin

section \<open>Python values\<close>

text \<open>
  A Python \<open>str\<close> is a sequence of Unicode code points, so it is modelled as a list of
  natural numbers (and not as a list of 8-bit characters): \<open>clean_text\<close> is about the
  code points U+00A0, U+2009, U+200B, U+200C, U+200D and U+FEFF.  ASCII literals are
  written \<open>u ''...''\<close>.
\<close>

type_synonym ustr = "nat list"

definition u :: "string \<Rightarrow> ustr" where
  "u s = map of_char s"

text \<open>\<open>str.isspace\<close>, the characters \<open>str.strip()\<close> removes (CPython's Unicode tables).\<close>

definition py_isspace :: "nat \<Rightarrow> bool" where
  "py_isspace c \<longleftrightarrow>
     (9 \<le> c \<and> c \<le> 13) \<or> (28 \<le> c \<and> c \<le> 32) \<or> c = 133 \<or> c = 160 \<or> c = 5760 \<or>
     (8192 \<le> c \<and> c \<le> 8202) \<or> c = 8232 \<or> c = 8233 \<or> c = 8239 \<or> c = 8287 \<or> c = 12288"

definition strip :: "ustr \<Rightarrow> ustr" where
  "strip s = rev (dropWhile py_isspace (rev (dropWhile py_isspace s)))"

text \<open>\<open>s.replace(c, r)\<close> for a one-character \<open>c\<close>.\<close>

definition replace_char :: "nat \<Rightarrow> ustr \<Rightarrow> ustr \<Rightarrow> ustr" where
  "replace_char c r s = concat (map (\<lambda>x. if x = c then r else [x]) s)"

text \<open>The character class \<open>[\x00-\x1F\x7F-\x9F]\<close>.\<close>

definition is_control :: "nat \<Rightarrow> bool" where
  "is_control c \<longleftrightarrow> c \<le> 31 \<or> (127 \<le> c \<and> c \<le> 159)"

section \<open>scraper.py: text and field extractors\<close>

text \<open>\<open>clean_text\<close> (scraper.py, lines 49-64), applied to a \<open>str\<close>.\<close>

definition clean_text :: "ustr \<Rightarrow> ustr" where
  "clean_text text =
     (if text = [] then []
      else
        let text = strip text;
            text = replace_char 160 [32] text;
            text = replace_char 8201 [32] text;
            text = replace_char 8203 [] text;
            text = replace_char 8204 [] text;
            text = replace_char 8205 [] text;
            text = replace_char 65279 [] text;
            text = filter (\<lambda>c. \<not> is_control c) text
        in strip text)"

text \<open>The characters \<open>clean_text\<close> replaces or deletes.\<close>

definition unclean :: "nat \<Rightarrow> bool" where
  "unclean c \<longleftrightarrow> c = 160 \<or> c = 8201 \<or> c = 8203 \<or> c = 8204 \<or> c = 8205 \<or> c = 65279 \<or> is_control c"

subsection \<open>Regular expressions of the extractors\<close>

text \<open>
  \<open>\d\<close> and \<open>int()\<close> are modelled for the ASCII digits \<open>0\<close>-\<open>9\<close>; Python also accepts the
  decimal digits of other scripts, which are outside this model.  A Python \<open>float\<close> is
  modelled as an exact real number, \<open>None\<close> (or NaN) as \<open>None\<close>; infinities are outside
  the model.
\<close>

definition is_digit :: "nat \<Rightarrow> bool" where
  "is_digit c \<longleftrightarrow> 48 \<le> c \<and> c \<le> 57"

text \<open>\<open>int(s)\<close> for a string of digits.\<close>

definition py_int :: "ustr \<Rightarrow> int" where
  "py_int ds = foldl (\<lambda>a c. 10 * a + int (c - 48)) 0 ds"

text \<open>\<open>re.search(r'(\d+)', s)\<close>: the first maximal run of digits, \<open>[]\<close> when there is no match.\<close>

definition search_digits :: "ustr \<Rightarrow> ustr" where
  "search_digits s = takeWhile is_digit (dropWhile (\<lambda>c. \<not> is_digit c) s)"

text \<open>
  One pattern letter under \<open>re.IGNORECASE\<close>: \<open>p\<close> is the code of a lower-case ASCII
  letter.  Besides both cases, \<open>i\<close> matches U+0130 and U+0131 and \<open>s\<close> matches U+017F.
\<close>

definition ci_letter :: "nat \<Rightarrow> nat \<Rightarrow> bool" where
  "ci_letter p c \<longleftrightarrow>
     c = p \<or> c + 32 = p \<or> (p = 105 \<and> (c = 304 \<or> c = 305)) \<or> (p = 115 \<and> c = 383)"

definition ci_prefix :: "ustr \<Rightarrow> ustr \<Rightarrow> bool" where
  "ci_prefix pat s \<longleftrightarrow> length pat \<le> length s \<and> list_all2 ci_letter pat (take (length pat) s)"

text \<open>\<open>re.sub(r'reviews?', '', s, flags=re.IGNORECASE)\<close>: leftmost matches, \<open>s?\<close> greedy.\<close>

function sub_reviews :: "ustr \<Rightarrow> ustr" where
  "sub_reviews [] = []"
| "sub_reviews (c # cs) =
     (if ci_prefix (u ''review'') (c # cs) then
        (let rest = drop 6 (c # cs)
         in if rest \<noteq> [] \<and> ci_letter 115 (hd rest) then sub_reviews (tl rest)
            else sub_reviews rest)
      else c # sub_reviews cs)"
  by pat_completeness auto
termination
  by (relation "measure length") (auto simp: ci_prefix_def u_def)

text \<open>
  \<open>re.search(r'(\d+[.,]?\d*)', s)\<close>: the integer digits, whether a separator follows
  them, and the digits after the separator; \<open>None\<close> when there is no digit.
\<close>

definition search_number :: "ustr \<Rightarrow> (ustr \<times> bool \<times> ustr) option" where
  "search_number s =
     (let t = dropWhile (\<lambda>c. \<not> is_digit c) s;
          a = takeWhile is_digit t;
          r = dropWhile is_digit t
      in if a = [] then None
         else if r \<noteq> [] \<and> (hd r = 46 \<or> hd r = 44) then Some (a, True, takeWhile is_digit (tl r))
         else Some (a, False, []))"

text \<open>\<open>float(s)\<close> for \<open>s\<close> made of an integer part \<open>a\<close> and decimals \<open>b\<close> (\<open>a.b\<close>, \<open>a.\<close> or \<open>a\<close>).\<close>

definition decimal_value :: "ustr \<Rightarrow> ustr \<Rightarrow> real" where
  "decimal_value a b = of_int (py_int a) + of_int (py_int b) / 10 ^ length b"

text \<open>
  \<open>float(s)\<close> for a string \<open>s\<close> of digits and dots, as \<open>re.sub(r'[^\d.]', '', ...)\<close>
  leaves it: \<open>None\<close> is the \<open>ValueError\<close>.
\<close>

definition float_digits_dots :: "ustr \<Rightarrow> real option" where
  "float_digits_dots s =
     (let a = takeWhile is_digit s; r = dropWhile is_digit s
      in if r = [] then (if a = [] then None else Some (decimal_value a []))
         else if hd r = 46 \<and> list_all is_digit (tl r) \<and> (a \<noteq> [] \<or> tl r \<noteq> [])
           then Some (decimal_value a (tl r))
         else None)"

subsection \<open>The extractors\<close>

text \<open>\<open>extract_price\<close> (scraper.py, lines 135-147).\<close>

definition extract_price :: "ustr \<Rightarrow> real option" where
  "extract_price price_text =
     (if price_text = [] then None
      else
        let price_text = clean_text price_text;
            price_clean = filter (\<lambda>c. is_digit c \<or> c = 46) price_text
        in if price_clean = [] then None
           else (case float_digits_dots price_clean of
                   None \<Rightarrow> None
                 | Some price_value \<Rightarrow> if price_value \<noteq> 0 \<and> price_value > 0 then Some price_value else None))"

text \<open>\<open>extract_rating\<close> (scraper.py, lines 149-164).\<close>

definition extract_rating :: "ustr \<Rightarrow> real option" where
  "extract_rating rating_text =
     (if rating_text = [] then None
      else
        let rating_text = clean_text rating_text
        in (case search_number rating_text of
              None \<Rightarrow> None
            | Some (a, sep, b) \<Rightarrow>
                let rating_value = decimal_value a b
                in if 0 \<le> rating_value \<and> rating_value \<le> 5 then Some rating_value else None))"

text \<open>\<open>extract_review_count\<close> (scraper.py, lines 166-182).\<close>

definition extract_review_count :: "ustr \<Rightarrow> int" where
  "extract_review_count review_text =
     (if review_text = [] then 0
      else
        let review_text = clean_text review_text;
            review_text = sub_reviews review_text;
            review_text = strip review_text;
            review_match = search_digits review_text
        in if review_match \<noteq> [] then py_int review_match else 0)"

section \<open>scraper.py: the page fetcher\<close>

text \<open>
  The browser session and the parsed markup are outside the program.  What \<open>scrape_page\<close>
  observes of them is modelled as data: a \<open>block\<close> holds what the BeautifulSoup queries of
  one product block return, a \<open>page_load\<close> what one \<open>driver.get\<close> and the waits after it do.
\<close>

datatype exn = Exception | AssertionError string | IntCastingNaNError

record product =
  category :: ustr
  product_name :: ustr
  price :: "real option"
  rating :: "real option"
  review_count :: int
  product_url :: "ustr option"

record block =
  raises :: bool  \<comment> \<open>a statement inside the \<open>try\<close> of lines 234-310 raises\<close>
  name_text :: "ustr option"  \<comment> \<open>text of the title link, \<open>None\<close> when there is no such link\<close>
  href :: "ustr option"  \<comment> \<open>\<open>url_elem.get('href', '')\<close>, \<open>None\<close> when no link element is found\<close>
  price_span :: "(ustr option \<times> ustr) option"  \<comment> \<open>the price element: its \<open>oriprice\<close> attribute and its text\<close>
  rating_text :: "ustr option"  \<comment> \<open>text of \<open>span.review-text\<close> in the review box\<close>
  review_text :: "ustr option"  \<comment> \<open>text of \<open>a.review\<close>, else \<open>span.review\<close>, else \<open>div.review\<close>\<close>

record page_load =
  get_raises :: bool  \<comment> \<open>\<open>driver.get(page_url)\<close> raises\<close>
  oriprice_marker :: bool  \<comment> \<open>\<open>span.price[oriprice]\<close> appears within the timeout\<close>
  price_marker :: bool  \<comment> \<open>\<open>span.price\<close> appears within the timeout\<close>
  block_marker :: bool  \<comment> \<open>\<open>div.p-wrap\<close> appears within the timeout\<close>
  source_raises :: bool  \<comment> \<open>reading or parsing \<open>driver.page_source\<close> raises\<close>
  product_blocks :: "block list"  \<comment> \<open>the blocks found by lines 227-231\<close>

text \<open>
  The browser's behaviour at the load of page \<open>page_num\<close> made with \<open>retry_count\<close>; the
  driver's state is the list of the pages it was sent to, in order.
\<close>

type_synonym browser = "nat \<Rightarrow> nat \<Rightarrow> page_load"
type_synonym driver = "nat list"

definition MAX_RETRIES_PER_PAGE :: nat where
  "MAX_RETRIES_PER_PAGE = 3"

text \<open>Lines 254-275: the price of a block.\<close>

definition block_price :: "(ustr option \<times> ustr) option \<Rightarrow> real option" where
  "block_price price_elem =
     (case price_elem of
        None \<Rightarrow> None
      | Some (oriprice, price_text) \<Rightarrow>
          let pr = (case oriprice of
                      None \<Rightarrow> None
                    | Some ori \<Rightarrow> if ori \<noteq> [] then extract_price ori else None)
          in if pr = None then (if price_text \<noteq> [] then extract_price price_text else None)
             else pr)"

text \<open>Lines 244-252: the URL of a block.\<close>

definition block_url :: "ustr option \<Rightarrow> ustr option" where
  "block_url url_elem =
     (case url_elem of
        None \<Rightarrow> None
      | Some url \<Rightarrow>
          if url \<noteq> [] \<and> take 4 url \<noteq> u ''http''
          then Some (u ''https://www.banggood.com'' @ url)
          else Some url)"

text \<open>
  The body of the loop over the blocks (lines 234-310): an exception, \<open>None\<close> for the
  \<open>continue\<close> of a block without a name, or the record that is appended.
\<close>

definition extract_block :: "ustr \<Rightarrow> block \<Rightarrow> exn + product option" where
  "extract_block cat b =
     (if raises b then Inl Exception
      else
        (case name_text b of
           None \<Rightarrow> Inr None
         | Some name \<Rightarrow>
             if name = [] then Inr None
             else Inr (Some
               \<lparr>category = cat,
                product_name = name,
                price = block_price (price_span b),
                rating = (case rating_text b of
                            None \<Rightarrow> None
                          | Some t \<Rightarrow> extract_rating (clean_text t)),
                review_count = (case review_text b of
                                  None \<Rightarrow> 0
                                | Some t \<Rightarrow> extract_review_count (clean_text t)),
                product_url = block_url (href b)\<rparr>)))"

text \<open>Lines 233-312: the loop, with \<open>except Exception: continue\<close>.\<close>

fun scrape_blocks :: "ustr \<Rightarrow> block list \<Rightarrow> product list \<Rightarrow> product list" where
  "scrape_blocks cat [] products = products"
| "scrape_blocks cat (b # bs) products =
     (case extract_block cat b of
        Inl e \<Rightarrow> scrape_blocks cat bs products
      | Inr None \<Rightarrow> scrape_blocks cat bs products
      | Inr (Some p) \<Rightarrow> scrape_blocks cat bs (products @ [p]))"

text \<open>None of the three content markers appears (lines 194-213).\<close>

definition no_marker :: "page_load \<Rightarrow> bool" where
  "no_marker load \<longleftrightarrow> \<not> oriprice_marker load \<and> \<not> price_marker load \<and> \<not> block_marker load"

text \<open>
  The statements inside the outer \<open>try\<close> (lines 190-312) for one load of the page: an
  exception that reaches the handler of line 314, the retry of line 217, or the products
  that were collected.
\<close>

datatype attempt = Retry | Collected "product list"

definition page_attempt :: "ustr \<Rightarrow> page_load \<Rightarrow> nat \<Rightarrow> exn + attempt" where
  "page_attempt cat load retry_count =
     (if get_raises load then Inl Exception
      else if no_marker load then
        (if retry_count < MAX_RETRIES_PER_PAGE then Inr Retry else Inr (Collected []))
      else if source_raises load then Inl Exception
      else Inr (Collected (scrape_blocks cat (product_blocks load) [])))"

text \<open>
  \<open>scrape_page\<close> (scraper.py, lines 184-317).  The result is the returned list, or the
  exception that leaves the function, and the driver's state afterwards.  The handler of
  line 314 returns \<open>products\<close>, which is still empty when an exception reaches it: the
  exceptions inside the loop over the blocks are handled there.
\<close>

function scrape_page ::
  "browser \<Rightarrow> ustr \<Rightarrow> nat \<Rightarrow> nat \<Rightarrow> driver \<Rightarrow> (exn + product list) \<times> driver" where
  "scrape_page br cat page_num retry_count drv =
     (let products = [];
          drv = drv @ [page_num]
      in (case page_attempt cat (br page_num retry_count) retry_count of
            Inl e \<Rightarrow> (Inr products, drv)
          | Inr Retry \<Rightarrow> scrape_page br cat page_num (retry_count + 1) drv
          | Inr (Collected products) \<Rightarrow> (Inr products, drv)))"
  by pat_completeness auto
termination
  by (relation "measure (\<lambda>(br, cat, page_num, retry_count, drv). MAX_RETRIES_PER_PAGE - retry_count)")
    (auto simp: page_attempt_def split: if_splits)

declare scrape_page.simps [simp del]

text \<open>The page loop of \<open>main\<close> for one category (scraper.py, lines 351-363).\<close>

fun page_loop ::
  "browser \<Rightarrow> ustr \<Rightarrow> nat list \<Rightarrow> product list \<Rightarrow> driver \<Rightarrow> (exn + product list) \<times> driver" where
  "page_loop br cat [] category_products drv = (Inr category_products, drv)"
| "page_loop br cat (page # pages) category_products drv =
     (case scrape_page br cat page 0 drv of
        (Inl e, drv) \<Rightarrow> (Inl e, drv)
      | (Inr products, drv) \<Rightarrow>
          if length products = 0 \<and> page > 1 then (Inr category_products, drv)
          else page_loop br cat pages (category_products @ products) drv)"

definition scrape_category ::
  "browser \<Rightarrow> ustr \<Rightarrow> nat \<Rightarrow> driver \<Rightarrow> (exn + product list) \<times> driver" where
  "scrape_category br cat pages_to_scrape drv = page_loop br cat [1..<pages_to_scrape + 1] [] drv"

text \<open>The records \<open>scrape_page\<close> returns for a page, whatever the driver's state.\<close>

definition page_records :: "browser \<Rightarrow> ustr \<Rightarrow> nat \<Rightarrow> product list" where
  "page_records br cat page = (case fst (scrape_page br cat page 0 []) of Inl e \<Rightarrow> [] | Inr ps \<Rightarrow> ps)"

text \<open>The pages \<open>scrape_page\<close> sends the driver to for a page.\<close>

definition page_visits :: "browser \<Rightarrow> ustr \<Rightarrow> nat \<Rightarrow> driver" where
  "page_visits br cat page = snd (scrape_page br cat page 0 [])"

section \<open>cleaner.py: tables\<close>

text \<open>
  A cell of \<open>raw.csv\<close> as \<open>pd.read_csv\<close> delivers it: null (NaN), a number, or a string.
  The three text columns hold strings or nulls.
\<close>

datatype cell = Null | Num real | Str ustr

record raw_row =
  raw_Category :: "ustr option"
  raw_ProductName :: "ustr option"
  raw_Price :: cell
  raw_Rating :: cell
  raw_ReviewCount :: cell
  raw_ProductURL :: "ustr option"

text \<open>
  A row of the data frame \<open>clean_data\<close> works on once its columns are cleaned.  In the
  numeric columns \<open>None\<close> is the null value (NaN); the two derived columns are null until
  \<open>create_derived_features\<close> assigns them.
\<close>

record row =
  Category :: ustr
  ProductName :: ustr
  Price :: "real option"
  Rating :: "real option"
  ReviewCount :: "int option"
  ProductURL :: ustr
  IsHighValue :: "int option"
  PricePerReview :: "real option"

type_synonym frame = "row list"

subsection \<open>pandas and numpy operations\<close>

text \<open>\<open>s.replace(old, new)\<close> for a non-empty \<open>old\<close>.\<close>

function replace :: "ustr \<Rightarrow> ustr \<Rightarrow> ustr \<Rightarrow> ustr" where
  "replace old new [] = []"
| "replace old new (c # cs) =
     (if old \<noteq> [] \<and> take (length old) (c # cs) = old
      then new @ replace old new (drop (length old) (c # cs))
      else c # replace old new cs)"
  by pat_completeness auto
termination
  by (relation "measure (\<lambda>(old, new, s). length s)") auto

text \<open>
  \<open>Series.astype(str)\<close> on a text column: a null becomes the string \<open>nan\<close> (pandas 1 and 2).
\<close>

definition astype_str :: "ustr option \<Rightarrow> ustr" where
  "astype_str v = (case v of None \<Rightarrow> u ''nan'' | Some s \<Rightarrow> s)"

text \<open>\<open>int(x)\<close> for a number: truncation towards zero.\<close>

definition py_trunc :: "real \<Rightarrow> int" where
  "py_trunc x = (if 0 \<le> x then \<lfloor>x\<rfloor> else \<lceil>x\<rceil>)"

text \<open>\<open>Series.fillna(v)\<close>, cell by cell.\<close>

definition fillna :: "'a \<Rightarrow> 'a option \<Rightarrow> 'a option" where
  "fillna v x = (case x of None \<Rightarrow> Some v | Some y \<Rightarrow> Some y)"

text \<open>\<open>Series.median()\<close>: the median of the values that are not null, null when there is none.\<close>

definition non_null :: "'a option list \<Rightarrow> 'a list" where
  "non_null xs = map the (filter (\<lambda>x. x \<noteq> None) xs)"

definition median :: "real option list \<Rightarrow> real option" where
  "median xs =
     (let s = sort (non_null xs); n = length s
      in if n = 0 then None
         else if odd n then Some (s ! (n div 2))
         else Some ((s ! (n div 2 - 1) + s ! (n div 2)) / 2))"

text \<open>\<open>numpy.rint\<close>: the nearest integer, a tie going to the even one.\<close>

definition rint :: "real \<Rightarrow> int" where
  "rint x =
     (let f = \<lfloor>x\<rfloor>; d = x - of_int f
      in if d < 1 / 2 then f else if 1 / 2 < d then f + 1 else if even f then f else f + 1)"

text \<open>
  \<open>Series.round(2)\<close> on one value: numpy scales by 100, rounds to an integer and divides
  by 100.  The value is an exact real here, not a binary float.
\<close>

definition round2 :: "real \<Rightarrow> real" where
  "round2 x = of_int (rint (x * 100)) / 100"

subsection \<open>The field cleaners\<close>

text \<open>\<open>clean_price\<close> (cleaner.py, lines 11-23).\<close>

definition clean_price :: "cell \<Rightarrow> real option" where
  "clean_price pr =
     (case pr of
        Null \<Rightarrow> None
      | Num x \<Rightarrow> Some x
      | Str s \<Rightarrow>
          let price_str = strip (replace (u ''$'') [] (replace (u ''US$'') [] s));
              price_clean = filter (\<lambda>c. is_digit c \<or> c = 46) price_str
          in float_digits_dots price_clean)"

text \<open>
  \<open>clean_rating\<close> (cleaner.py, lines 25-34).  \<open>float(rating)\<close> on a string is Python's own
  parser: it is the parameter \<open>py_float\<close>, which returns the exception or the value
  (\<open>None\<close> for NaN).
\<close>

definition clean_rating :: "(ustr \<Rightarrow> exn + real option) \<Rightarrow> cell \<Rightarrow> real option" where
  "clean_rating py_float rt =
     (case rt of
        Null \<Rightarrow> Some 0
      | Num x \<Rightarrow> Some x
      | Str s \<Rightarrow> (case py_float s of Inl e \<Rightarrow> Some 0 | Inr v \<Rightarrow> v))"

text \<open>\<open>clean_review_count\<close> (cleaner.py, lines 36-49).\<close>

definition clean_review_count :: "cell \<Rightarrow> int" where
  "clean_review_count rc =
     (case rc of
        Null \<Rightarrow> 0
      | Num x \<Rightarrow> py_trunc x
      | Str s \<Rightarrow>
          let review_match = search_digits s
          in if review_match \<noteq> [] then py_int review_match else 0)"

subsection \<open>The derived feature engine\<close>

text \<open>The statements of \<open>create_derived_features\<close> (cleaner.py, lines 56-93), on a frame.\<close>

definition fill_review_count :: "frame \<Rightarrow> frame" where
  "fill_review_count df = map (\<lambda>r. r\<lparr>ReviewCount := fillna 0 (ReviewCount r)\<rparr>) df"

definition fill_rating :: "frame \<Rightarrow> frame" where
  "fill_rating df = map (\<lambda>r. r\<lparr>Rating := fillna 0 (Rating r)\<rparr>) df"

text \<open>The \<open>Price\<close> column of the group of a category.\<close>

definition group_prices :: "frame \<Rightarrow> ustr \<Rightarrow> real option list" where
  "group_prices df c = map Price (filter (\<lambda>r. Category r = c) df)"

text \<open>Lines 63-65: \<open>groupby('Category')['Price'].transform(...)\<close>.\<close>

definition fill_price_by_category :: "frame \<Rightarrow> frame" where
  "fill_price_by_category df =
     map (\<lambda>r. let x = group_prices df (Category r)
              in if median x \<noteq> None then r\<lparr>Price := fillna (the (median x)) (Price r)\<rparr> else r) df"

text \<open>Lines 67-70.\<close>

definition fill_price_overall :: "frame \<Rightarrow> frame" where
  "fill_price_overall df =
     (let overall_median = (case median (map Price df) of None \<Rightarrow> 0 | Some m \<Rightarrow> m)
      in map (\<lambda>r. r\<lparr>Price := fillna overall_median (Price r)\<rparr>) df)"

text \<open>
  Line 73: \<open>df.groupby('Category')['Price'].median()\<close>, a series indexed by the
  categories that occur.
\<close>

definition groupby_median :: "frame \<Rightarrow> ustr \<Rightarrow> real option option" where
  "groupby_median df c =
     (if c \<in> set (map Category df) then Some (median (group_prices df c)) else None)"

text \<open>
  \<open>calculate_is_high_value\<close> (lines 76-85).  A comparison with NaN is false in Python.
\<close>

definition calculate_is_high_value :: "(ustr \<Rightarrow> real option option) \<Rightarrow> row \<Rightarrow> int" where
  "calculate_is_high_value category_medians r =
     (let category_median = (case category_medians (Category r) of None \<Rightarrow> Price r | Some m \<Rightarrow> m);
          category_median = (if category_median = None then Price r else category_median)
      in if Rating r = None \<or> Price r = None then 0
         else (case category_median of
                 None \<Rightarrow> 0
               | Some m \<Rightarrow> if 4.5 \<le> the (Rating r) \<and> the (Price r) < m then 1 else 0))"

definition add_is_high_value :: "frame \<Rightarrow> frame" where
  "add_is_high_value df =
     (let category_medians = groupby_median df
      in map (\<lambda>r. r\<lparr>IsHighValue := Some (calculate_is_high_value category_medians r)\<rparr>) df)"

text \<open>Lines 90-93; \<open>max(nan, 1)\<close> and a division of NaN give NaN.\<close>

definition price_per_review :: "row \<Rightarrow> real option" where
  "price_per_review r =
     (case (Price r, ReviewCount r) of
        (Some p, Some n) \<Rightarrow> Some (p / of_int (max n 1))
      | _ \<Rightarrow> None)"

definition add_price_per_review :: "frame \<Rightarrow> frame" where
  "add_price_per_review df = map (\<lambda>r. r\<lparr>PricePerReview := price_per_review r\<rparr>) df"

text \<open>
  Data frames are objects: a heap is the list of the frames allocated so far, and a
  reference is an index into it.  \<open>df.copy()\<close> allocates, \<open>df[c] = ...\<close> updates the
  frame \<open>df\<close> refers to in place.
\<close>

type_synonym heap = "frame list"

definition df_copy :: "heap \<Rightarrow> nat \<Rightarrow> heap \<times> nat" where
  "df_copy h df = (h @ [h ! df], length h)"

definition df_assign :: "heap \<Rightarrow> nat \<Rightarrow> (frame \<Rightarrow> frame) \<Rightarrow> heap" where
  "df_assign h df f = h[df := f (h ! df)]"

text \<open>
  \<open>create_derived_features\<close> (cleaner.py, lines 51-95).  The model follows the statements
  row by row; what pandas does at line 87 with a frame that has no row is not modelled.
\<close>

definition create_derived_features :: "heap \<Rightarrow> nat \<Rightarrow> heap \<times> nat" where
  "create_derived_features h df =
     (let (h, df) = df_copy h df;
          h = df_assign h df fill_review_count;
          h = df_assign h df fill_rating;
          h = df_assign h df fill_price_by_category;
          h = df_assign h df fill_price_overall;
          h = df_assign h df add_is_high_value;
          h = df_assign h df add_price_per_review
      in (h, df))"

text \<open>The frame the statements of \<open>create_derived_features\<close> compute from a frame.\<close>

definition derive :: "frame \<Rightarrow> frame" where
  "derive df =
     add_price_per_review (add_is_high_value (fill_price_overall (fill_price_by_category
       (fill_rating (fill_review_count df)))))"

subsection \<open>The pipeline\<close>

text \<open>Lines 107-123 of \<open>clean_data\<close>: the columns are cleaned one by one.\<close>

definition clean_columns :: "(ustr \<Rightarrow> exn + real option) \<Rightarrow> raw_row list \<Rightarrow> frame" where
  "clean_columns py_float raw =
     map (\<lambda>r. \<lparr>Category = strip (astype_str (raw_Category r)),
               ProductName = strip (astype_str (raw_ProductName r)),
               Price = clean_price (raw_Price r),
               Rating = clean_rating py_float (raw_Rating r),
               ReviewCount = Some (clean_review_count (raw_ReviewCount r)),
               ProductURL = strip (astype_str (raw_ProductURL r)),
               IsHighValue = None,
               PricePerReview = None\<rparr>) raw"

text \<open>
  Line 126.  After \<open>astype(str)\<close> every name is a string, so \<open>notna()\<close> holds for every
  row and the filter keeps the rows whose name is not empty.
\<close>

definition drop_missing_names :: "frame \<Rightarrow> frame" where
  "drop_missing_names df = filter (\<lambda>r. ProductName r \<noteq> []) df"

text \<open>
  Lines 133-140.  \<open>astype(int)\<close> raises on a column that holds a null (lines 137 and 138);
  the other casts leave the columns as they are.
\<close>

definition cast_columns :: "frame \<Rightarrow> exn + frame" where
  "cast_columns df =
     (if \<not> list_all (\<lambda>r. ReviewCount r \<noteq> None) df then Inl IntCastingNaNError
      else if \<not> list_all (\<lambda>r. IsHighValue r \<noteq> None) df then Inl IntCastingNaNError
      else Inr df)"

text \<open>Lines 143-147.\<close>

definition round_columns :: "frame \<Rightarrow> frame" where
  "round_columns df =
     (let df = map (\<lambda>r. r\<lparr>Price := map_option round2 (Price r)\<rparr>) df;
          df = map (\<lambda>r. r\<lparr>PricePerReview := map_option round2 (PricePerReview r)\<rparr>) df
      in map (\<lambda>r. r\<lparr>Rating := map_option round2 (Rating r)\<rparr>) df)"

text \<open>
  Lines 150-158: the four assertions, then \<open>to_csv\<close>; the second component is the file
  written.  In \<open>clean_data\<close> they run on a table that passed the casts of lines 133-140.
\<close>

definition validate_and_save :: "frame \<Rightarrow> (exn + frame) \<times> frame option" where
  "validate_and_save df =
     (if \<not> list_all (\<lambda>r. Price r \<noteq> None) df
        then (Inl (AssertionError ''Price column contains NULL values!''), None)
      else if \<not> list_all (\<lambda>r. PricePerReview r \<noteq> None) df
        then (Inl (AssertionError ''PricePerReview column contains NULL values!''), None)
      else if \<not> list_all (\<lambda>r. ReviewCount r \<noteq> None) df
        then (Inl (AssertionError ''ReviewCount column contains NULL values!''), None)
      else if \<not> list_all (\<lambda>r. Rating r \<noteq> None) df
        then (Inl (AssertionError ''Rating column contains NULL values!''), None)
      else (Inr df, Some df))"

text \<open>
  Lines 133-158 of \<open>clean_data\<close>, on the frame that \<open>create_derived_features\<close> returned:
  the casts, the rounding, the assertions and the file.
\<close>

definition finish_table :: "frame \<Rightarrow> (exn + frame) \<times> frame option" where
  "finish_table df =
     (case cast_columns df of
        Inl e \<Rightarrow> (Inl e, None)
      | Inr df \<Rightarrow> validate_and_save (round_columns df))"

text \<open>The table of \<open>clean_data\<close> after line 130, the call of \<open>create_derived_features\<close>.\<close>

definition derived_table :: "(ustr \<Rightarrow> exn + real option) \<Rightarrow> raw_row list \<Rightarrow> frame" where
  "derived_table py_float raw =
     (let df = drop_missing_names (clean_columns py_float raw);
          (h, df) = create_derived_features [df] 0
      in h ! df)"

text \<open>\<open>clean_data\<close> (cleaner.py, lines 97-165), from the table read by \<open>pd.read_csv\<close>.\<close>

definition clean_data ::
  "(ustr \<Rightarrow> exn + real option) \<Rightarrow> raw_row list \<Rightarrow> (exn + frame) \<times> frame option" where
  "clean_data py_float raw = finish_table (derived_table py_float raw)"

text \<open>A table has no null in the four columns the assertions name.\<close>

definition no_nulls :: "frame \<Rightarrow> bool" where
  "no_nulls df \<longleftrightarrow>
     list_all (\<lambda>r. Price r \<noteq> None \<and> Rating r \<noteq> None \<and> ReviewCount r \<noteq> None \<and> PricePerReview r \<noteq> None) df"

text \<open>The two integer columns hold no null: the casts of lines 137 and 138 succeed.\<close>

definition int_columns :: "frame \<Rightarrow> bool" where
  "int_columns df \<longleftrightarrow> list_all (\<lambda>r. ReviewCount r \<noteq> None \<and> IsHighValue r \<noteq> None) df"

text \<open>The raw rows that line 126 keeps, in their order.\<close>

definition kept_rows :: "raw_row list \<Rightarrow> raw_row list" where
  "kept_rows raw = filter (\<lambda>x. strip (astype_str (raw_ProductName x)) \<noteq> []) raw"

text \<open>The frame after the four filling statements (lines 56-70).\<close>

definition imputed :: "frame \<Rightarrow> frame" where
  "imputed df = fill_price_overall (fill_price_by_category (fill_rating (fill_review_count df)))"

text \<open>
  A raw rating that is null, a number in \<open>[0, 5]\<close>, or a string that \<open>float()\<close> rejects
  or reads as NaN or as a number in \<open>[0, 5]\<close>.
\<close>

definition rating_in_range :: "(ustr \<Rightarrow> exn + real option) \<Rightarrow> cell \<Rightarrow> bool" where
  "rating_in_range py_float c =
     (case c of
        Null \<Rightarrow> True
      | Num x \<Rightarrow> 0 \<le> x \<and> x \<le> 5
      | Str s \<Rightarrow> (case py_float s of
                    Inl e \<Rightarrow> True
                  | Inr None \<Rightarrow> True
                  | Inr (Some v) \<Rightarrow> 0 \<le> v \<and> v \<le> 5))"

section \<open>Example inputs\<close>

text \<open>
  An instance of \<open>float()\<close> on strings for the examples: it reads plain decimal numerals
  and raises on every other string.
\<close>

definition float_of_decimal :: "ustr \<Rightarrow> exn + real option" where
  "float_of_decimal s =
     (case float_digits_dots s of None \<Rightarrow> Inl Exception | Some x \<Rightarrow> Inr (Some x))"

text \<open>The two raw rows of the scenario of the specification, and their cleaned table.\<close>

definition scenario_raw :: "raw_row list" where
  "scenario_raw =
     [\<lparr>raw_Category = Some (u ''Tools''), raw_ProductName = Some (u ''Drill''),
       raw_Price = Str (u ''US$12.50''), raw_Rating = Str (u ''4.8''),
       raw_ReviewCount = Str (u ''3 reviews''), raw_ProductURL = Some (u ''/a'')\<rparr>,
      \<lparr>raw_Category = Some (u ''Tools''), raw_ProductName = Some (u ''Saw''),
       raw_Price = Null, raw_Rating = Str (u ''3.0''),
       raw_ReviewCount = Str (u ''0''), raw_ProductURL = Some (u ''/b'')\<rparr>]"

definition scenario_cleaned :: frame where
  "scenario_cleaned =
     [\<lparr>Category = u ''Tools'', ProductName = u ''Drill'', Price = Some 12.5, Rating = Some 4.8,
       ReviewCount = Some 3, ProductURL = u ''/a'', IsHighValue = Some 0,
       PricePerReview = Some 4.17\<rparr>,
      \<lparr>Category = u ''Tools'', ProductName = u ''Saw'', Price = Some 12.5, Rating = Some 3,
       ReviewCount = Some 0, ProductURL = u ''/b'', IsHighValue = Some 0,
       PricePerReview = Some 12.5\<rparr>]"

text \<open>A row whose price has three decimals.\<close>

definition skew_raw :: "raw_row list" where
  "skew_raw =
     [\<lparr>raw_Category = Some (u ''Tools''), raw_ProductName = Some (u ''Clamp''),
       raw_Price = Num 0.066, raw_Rating = Num 4,
       raw_ReviewCount = Num 2, raw_ProductURL = Some (u ''/c'')\<rparr>]"

definition skew_cleaned :: frame where
  "skew_cleaned =
     [\<lparr>Category = u ''Tools'', ProductName = u ''Clamp'', Price = Some 0.07, Rating = Some 4,
       ReviewCount = Some 2, ProductURL = u ''/c'', IsHighValue = Some 0,
       PricePerReview = Some 0.03\<rparr>]"

text \<open>A row whose rating is the number 9, and a row whose rating is 4.2.\<close>

definition offscale_raw :: "raw_row list" where
  "offscale_raw =
     [\<lparr>raw_Category = Some (u ''Tools''), raw_ProductName = Some (u ''Vise''),
       raw_Price = Num 5, raw_Rating = Num 9,
       raw_ReviewCount = Num 1, raw_ProductURL = Some (u ''/d'')\<rparr>,
      \<lparr>raw_Category = Some (u ''Tools''), raw_ProductName = Some (u ''Rasp''),
       raw_Price = Num 7, raw_Rating = Num 4.2,
       raw_ReviewCount = Num 2, raw_ProductURL = Some (u ''/g'')\<rparr>]"

definition offscale_cleaned :: frame where
  "offscale_cleaned =
     [\<lparr>Category = u ''Tools'', ProductName = u ''Vise'', Price = Some 5, Rating = Some 9,
       ReviewCount = Some 1, ProductURL = u ''/d'', IsHighValue = Some 1,
       PricePerReview = Some 5\<rparr>,
      \<lparr>Category = u ''Tools'', ProductName = u ''Rasp'', Price = Some 7, Rating = Some 4.2,
       ReviewCount = Some 2, ProductURL = u ''/g'', IsHighValue = Some 0,
       PricePerReview = Some 3.5\<rparr>]"

text \<open>
  Three rows of one category, the third without a price: the table after derivation, where
  the missing price is the median 10.005 of the other two, and the cleaned table, where
  it is rounded to 10.
\<close>

definition tie_raw :: "raw_row list" where
  "tie_raw =
     [\<lparr>raw_Category = Some (u ''Tools''), raw_ProductName = Some (u ''p''),
       raw_Price = Num 10, raw_Rating = Num 5,
       raw_ReviewCount = Num 1, raw_ProductURL = Some (u ''/p'')\<rparr>,
      \<lparr>raw_Category = Some (u ''Tools''), raw_ProductName = Some (u ''q''),
       raw_Price = Num 10.01, raw_Rating = Num 3,
       raw_ReviewCount = Num 1, raw_ProductURL = Some (u ''/q'')\<rparr>,
      \<lparr>raw_Category = Some (u ''Tools''), raw_ProductName = Some (u ''r''),
       raw_Price = Null, raw_Rating = Num 5,
       raw_ReviewCount = Num 1, raw_ProductURL = Some (u ''/r'')\<rparr>]"

definition tie_derived :: frame where
  "tie_derived =
     [\<lparr>Category = u ''Tools'', ProductName = u ''p'', Price = Some 10, Rating = Some 5,
       ReviewCount = Some 1, ProductURL = u ''/p'', IsHighValue = Some 1,
       PricePerReview = Some 10\<rparr>,
      \<lparr>Category = u ''Tools'', ProductName = u ''q'', Price = Some 10.01, Rating = Some 3,
       ReviewCount = Some 1, ProductURL = u ''/q'', IsHighValue = Some 0,
       PricePerReview = Some 10.01\<rparr>,
      \<lparr>Category = u ''Tools'', ProductName = u ''r'', Price = Some 10.005, Rating = Some 5,
       ReviewCount = Some 1, ProductURL = u ''/r'', IsHighValue = Some 0,
       PricePerReview = Some 10.005\<rparr>]"

definition tie_cleaned :: frame where
  "tie_cleaned =
     [\<lparr>Category = u ''Tools'', ProductName = u ''p'', Price = Some 10, Rating = Some 5,
       ReviewCount = Some 1, ProductURL = u ''/p'', IsHighValue = Some 1,
       PricePerReview = Some 10\<rparr>,
      \<lparr>Category = u ''Tools'', ProductName = u ''q'', Price = Some 10.01, Rating = Some 3,
       ReviewCount = Some 1, ProductURL = u ''/q'', IsHighValue = Some 0,
       PricePerReview = Some 10.01\<rparr>,
      \<lparr>Category = u ''Tools'', ProductName = u ''r'', Price = Some 10, Rating = Some 5,
       ReviewCount = Some 1, ProductURL = u ''/r'', IsHighValue = Some 0,
       PricePerReview = Some 10\<rparr>]"



text \<open>A row without a product name, and a row whose name is two spaces.\<close>

definition null_name_raw :: "raw_row list" where
  "null_name_raw =
     [\<lparr>raw_Category = Some (u ''Tools''), raw_ProductName = None,
       raw_Price = Num 12.5, raw_Rating = Num 4.8,
       raw_ReviewCount = Num 3, raw_ProductURL = Some (u ''/e'')\<rparr>,
      \<lparr>raw_Category = Some (u ''Tools''), raw_ProductName = Some (u ''  ''),
       raw_Price = Num 20, raw_Rating = Num 4,
       raw_ReviewCount = Num 1, raw_ProductURL = Some (u ''/f'')\<rparr>]"

definition null_name_cleaned :: frame where
  "null_name_cleaned =
     [\<lparr>Category = u ''Tools'', ProductName = u ''nan'', Price = Some 12.5, Rating = Some 4.8,
       ReviewCount = Some 3, ProductURL = u ''/e'', IsHighValue = Some 0,
       PricePerReview = Some 4.17\<rparr>]"

text \<open>
  A frame with nulls as \<open>create_derived_features\<close> may receive it, and the frame it
  returns: the only price of category \<open>B\<close> is null and is filled with the overall median.
\<close>

definition shelf :: frame where
  "shelf =
     [\<lparr>Category = u ''A'', ProductName = u ''p'', Price = Some 10, Rating = Some 4.8,
       ReviewCount = Some 4, ProductURL = u ''x'', IsHighValue = None, PricePerReview = None\<rparr>,
      \<lparr>Category = u ''A'', ProductName = u ''q'', Price = Some 20, Rating = None,
       ReviewCount = Some 0, ProductURL = u ''y'', IsHighValue = None, PricePerReview = None\<rparr>,
      \<lparr>Category = u ''A'', ProductName = u ''r'', Price = Some 30, Rating = Some 4.9,
       ReviewCount = None, ProductURL = u ''z'', IsHighValue = None, PricePerReview = None\<rparr>,
      \<lparr>Category = u ''B'', ProductName = u ''s'', Price = None, Rating = Some 5,
       ReviewCount = Some 2, ProductURL = u ''w'', IsHighValue = None, PricePerReview = None\<rparr>]"

definition shelf_derived :: frame where
  "shelf_derived =
     [\<lparr>Category = u ''A'', ProductName = u ''p'', Price = Some 10, Rating = Some 4.8,
       ReviewCount = Some 4, ProductURL = u ''x'', IsHighValue = Some 1, PricePerReview = Some 2.5\<rparr>,
      \<lparr>Category = u ''A'', ProductName = u ''q'', Price = Some 20, Rating = Some 0,
       ReviewCount = Some 0, ProductURL = u ''y'', IsHighValue = Some 0, PricePerReview = Some 20\<rparr>,
      \<lparr>Category = u ''A'', ProductName = u ''r'', Price = Some 30, Rating = Some 4.9,
       ReviewCount = Some 0, ProductURL = u ''z'', IsHighValue = Some 0, PricePerReview = Some 30\<rparr>,
      \<lparr>Category = u ''B'', ProductName = u ''s'', Price = Some 20, Rating = Some 5,
       ReviewCount = Some 2, ProductURL = u ''w'', IsHighValue = Some 0, PricePerReview = Some 10\<rparr>]"



text \<open>A block with a name only, and a block whose extraction raises.\<close>

definition plain_block :: block where
  "plain_block = \<lparr>raises = False, name_text = Some (u ''Drill''), href = None,
     price_span = None, rating_text = None, review_text = None\<rparr>"


definition plain_product :: product where
  "plain_product = \<lparr>category = u ''Tools'', product_name = u ''Drill'', price = None,
     rating = None, review_count = 0, product_url = None\<rparr>"

text \<open>A site whose pages 1 and 2 hold one product and whose later pages hold none.\<close>

definition short_site :: browser where
  "short_site page_num retry_count =
     \<lparr>get_raises = False, oriprice_marker = True, price_marker = True, block_marker = True,
      source_raises = False, product_blocks = (if page_num < 3 then [plain_block] else [])\<rparr>"

section \<open>Properties of the string operations\<close>

lemma set_strip: "set (strip s) \<subseteq> set s"
  unfolding strip_def by (auto dest!: set_dropWhileD)

lemma strip_fixed: "s = [] \<or> (\<not> py_isspace (hd s) \<and> \<not> py_isspace (last s)) \<Longrightarrow> strip s = s"
proof -
  assume a: "s = [] \<or> (\<not> py_isspace (hd s) \<and> \<not> py_isspace (last s))"
  show ?thesis
  proof (cases "s = []")
    case True
    then show ?thesis by (simp add: strip_def)
  next
    case False
    with a have h: "\<not> py_isspace (hd s)" and l: "\<not> py_isspace (last s)" by auto
    from h False have 1: "dropWhile py_isspace s = s"
      by (simp add: dropWhile_eq_self_iff)
    from l False have 2: "dropWhile py_isspace (rev s) = rev s"
      by (simp add: dropWhile_eq_self_iff hd_rev)
    show ?thesis by (simp add: strip_def 1 2)
  qed
qed

lemma strip_ends: "strip s = [] \<or> (\<not> py_isspace (hd (strip s)) \<and> \<not> py_isspace (last (strip s)))"
proof (cases "strip s = []")
  case True
  then show ?thesis by simp
next
  case False
  define a where "a = dropWhile py_isspace s"
  define b where "b = dropWhile py_isspace (rev a)"
  have sb: "strip s = rev b" by (simp add: strip_def a_def b_def)
  with False have bne: "b \<noteq> []" by simp
  then have ane: "a \<noteq> []" by (auto simp: b_def)
  have lastb: "\<not> py_isspace (hd b)"
    using bne unfolding b_def by (rule hd_dropWhile)
  have ha: "\<not> py_isspace (hd a)"
    using ane unfolding a_def by (rule hd_dropWhile)
  have "takeWhile py_isspace (rev a) @ b = rev a"
    by (simp add: b_def)
  then have "rev b @ rev (takeWhile py_isspace (rev a)) = a"
    by (metis rev_append rev_rev_ident)
  with bne have "hd (rev b) = hd a"
    by (metis hd_append2 rev_is_Nil_conv)
  with ha lastb bne show ?thesis
    by (simp add: sb last_rev)
qed

lemma strip_idem: "strip (strip s) = strip s"
  by (rule strip_fixed) (rule strip_ends)

lemma replace_char_absent: "c \<notin> set s \<Longrightarrow> replace_char c r s = s"
  by (induction s) (auto simp: replace_char_def)

lemma set_replace_char: "set (replace_char c r s) \<subseteq> (set s - {c}) \<union> set r"
  by (induction s) (auto simp: replace_char_def)

lemma filter_absent: "\<forall>c\<in>set s. \<not> is_control c \<Longrightarrow> filter (\<lambda>c. \<not> is_control c) s = s"
  by (induction s) auto

lemma clean_text_chars: "c \<in> set (clean_text s) \<Longrightarrow> \<not> unclean c"
proof -
  assume c: "c \<in> set (clean_text s)"
  then have ne: "s \<noteq> []" by (auto simp: clean_text_def)
  define t0 where "t0 = strip s"
  define t1 where "t1 = replace_char 160 [32] t0"
  define t2 where "t2 = replace_char 8201 [32] t1"
  define t3 where "t3 = replace_char 8203 [] t2"
  define t4 where "t4 = replace_char 8204 [] t3"
  define t5 where "t5 = replace_char 8205 [] t4"
  define t6 where "t6 = replace_char 65279 [] t5"
  define t7 where "t7 = filter (\<lambda>c. \<not> is_control c) t6"
  have ct: "clean_text s = strip t7"
    using ne by (simp add: clean_text_def Let_def t0_def t1_def t2_def t3_def t4_def t5_def t6_def t7_def)
  with c have c7: "c \<in> set t7" using set_strip[of t7] by auto
  then have nc: "\<not> is_control c" and c6: "c \<in> set t6" by (auto simp: t7_def)
  from c6 have n6: "c \<noteq> 65279" and c5: "c \<in> set t5"
    using set_replace_char[of 65279 "[]" t5] by (auto simp: t6_def)
  from c5 have n5: "c \<noteq> 8205" and c4: "c \<in> set t4"
    using set_replace_char[of 8205 "[]" t4] by (auto simp: t5_def)
  from c4 have n4: "c \<noteq> 8204" and c3: "c \<in> set t3"
    using set_replace_char[of 8204 "[]" t3] by (auto simp: t4_def)
  from c3 have n3: "c \<noteq> 8203" and c2: "c \<in> set t2"
    using set_replace_char[of 8203 "[]" t2] by (auto simp: t3_def)
  from c2 have n2: "c \<noteq> 8201" and c1: "c = 32 \<or> c \<in> set t1"
    using set_replace_char[of 8201 "[32]" t1] by (auto simp: t2_def)
  from c1 have n1: "c \<noteq> 160"
    using set_replace_char[of 160 "[32]" t0] by (auto simp: t1_def)
  from nc n1 n2 n3 n4 n5 n6 show ?thesis by (simp add: unclean_def)
qed

lemma clean_text_stripped: "strip (clean_text s) = clean_text s"
  by (simp add: clean_text_def Let_def strip_idem) (simp add: strip_def)

lemma clean_text_fixed:
  assumes chars: "\<forall>c\<in>set t. \<not> unclean c" and st: "strip t = t"
  shows "clean_text t = t"
proof (cases "t = []")
  case True
  then show ?thesis by (simp add: clean_text_def)
next
  case False
  have r: "\<And>c r. unclean c \<Longrightarrow> replace_char c r t = t"
    using chars by (auto intro: replace_char_absent)
  have f: "filter (\<lambda>c. \<not> is_control c) t = t"
    using chars by (intro filter_absent) (auto simp: unclean_def)
  show ?thesis
    using False by (simp add: clean_text_def Let_def st r f unclean_def)
qed

text \<open>
  C7. \<open>clean_text\<close> is idempotent: for every string \<open>s\<close>,
  \<open>clean_text(clean_text(s)) == clean_text(s)\<close>.
\<close>

theorem clean_text_idempotent: "clean_text (clean_text s) = clean_text s"
  by (rule clean_text_fixed) (auto dest: clean_text_chars simp: clean_text_stripped)

text \<open>
  C4. \<open>extract_review_count\<close> removes the words "review(s)" without regard to case and
  reads the first run of digits of what is left, 0 when there is none.  It does not remove
  the other characters that are not digits: on \<open>"1,024 reviews"\<close> the first run of
  digits is \<open>1\<close>, so the function returns 1, not 1024.  On the empty string it returns 0.
\<close>

theorem extract_review_count_first_run:
  "extract_review_count (u ''1,024 reviews'') = 1 \<and> extract_review_count [] = 0"
  by (simp add: extract_review_count_def clean_text_def strip_def py_isspace_def replace_char_def
      is_control_def search_digits_def is_digit_def py_int_def u_def ci_prefix_def ci_letter_def)

section \<open>Properties of the page fetcher\<close>

lemma scrape_page_shape:
  "\<exists>ps k. 1 \<le> k \<and> k \<le> 1 + (MAX_RETRIES_PER_PAGE - r) \<and>
     (\<forall>d. scrape_page br cat p r d = (Inr ps, d @ replicate k p))"
proof (induction "MAX_RETRIES_PER_PAGE - r" arbitrary: r)
  case 0
  then have nr: "\<not> r < MAX_RETRIES_PER_PAGE" by simp
  show ?case
  proof (cases "get_raises (br p r) \<or> no_marker (br p r) \<or> source_raises (br p r)")
    case True
    then have "\<forall>d. scrape_page br cat p r d = (Inr [], d @ replicate 1 p)"
      using nr by (auto simp: scrape_page.simps[of br cat p r] page_attempt_def Let_def)
    then show ?thesis by (intro exI[of _ "[]"] exI[of _ 1]) simp
  next
    case False
    then have "\<forall>d. scrape_page br cat p r d
        = (Inr (scrape_blocks cat (product_blocks (br p r)) []), d @ replicate 1 p)"
      by (auto simp: scrape_page.simps[of br cat p r] page_attempt_def Let_def)
    then show ?thesis by (intro exI[of _ "scrape_blocks cat (product_blocks (br p r)) []"] exI[of _ 1]) simp
  qed
next
  case (Suc n)
  then have lt: "r < MAX_RETRIES_PER_PAGE" and n: "n = MAX_RETRIES_PER_PAGE - (r + 1)" by auto
  show ?case
  proof (cases "\<not> get_raises (br p r) \<and> no_marker (br p r)")
    case True
    from Suc.hyps(1)[OF n] obtain ps k where k: "1 \<le> k" "k \<le> 1 + (MAX_RETRIES_PER_PAGE - (r + 1))"
      and eq: "\<forall>d. scrape_page br cat p (r + 1) d = (Inr ps, d @ replicate k p)" by blast
    have "\<forall>d. scrape_page br cat p r d = (Inr ps, d @ replicate (Suc k) p)"
      using True lt eq by (simp add: scrape_page.simps[of br cat p r] page_attempt_def Let_def replicate_app_Cons_same)
    moreover have "1 \<le> Suc k" "Suc k \<le> 1 + (MAX_RETRIES_PER_PAGE - r)" using k lt by auto
    ultimately show ?thesis by blast
  next
    case False
    show ?thesis
    proof (cases "get_raises (br p r) \<or> source_raises (br p r)")
      case True
      then have "\<forall>d. scrape_page br cat p r d = (Inr [], d @ replicate 1 p)"
        using False by (auto simp: scrape_page.simps[of br cat p r] page_attempt_def Let_def)
      then show ?thesis by (intro exI[of _ "[]"] exI[of _ 1]) simp
    next
      case F2: False
      then have "\<forall>d. scrape_page br cat p r d
          = (Inr (scrape_blocks cat (product_blocks (br p r)) []), d @ replicate 1 p)"
        using False by (auto simp: scrape_page.simps[of br cat p r] page_attempt_def Let_def)
      then show ?thesis
        by (intro exI[of _ "scrape_blocks cat (product_blocks (br p r)) []"] exI[of _ 1]) simp
    qed
  qed
qed

lemma scrape_page_eq:
  "scrape_page br cat p 0 d = (Inr (page_records br cat p), d @ page_visits br cat p)"
proof -
  obtain ps k where "\<forall>d. scrape_page br cat p 0 d = (Inr ps, d @ replicate k p)"
    using scrape_page_shape[of 0 br cat p] by blast
  then show ?thesis by (simp add: page_records_def page_visits_def)
qed

lemma set_page_visits: "set (page_visits br cat p) = {p}"
proof -
  obtain ps k where "1 \<le> k" "\<forall>d. scrape_page br cat p 0 d = (Inr ps, d @ replicate k p)"
    using scrape_page_shape[of 0 br cat p] by blast
  then show ?thesis by (auto simp: page_visits_def)
qed






lemma scrape_page_rendered:
  assumes "\<not> get_raises (br p 0)" "\<not> no_marker (br p 0)" "\<not> source_raises (br p 0)"
  shows "scrape_page br cat p 0 d = (Inr (scrape_blocks cat (product_blocks (br p 0)) []), d @ [p])"
  using assms by (auto simp: scrape_page.simps[of br cat p 0] page_attempt_def Let_def)

lemma plain_block_eval: "extract_block (u ''Tools'') plain_block = Inr (Some plain_product)"
  by (simp add: extract_block_def plain_block_def plain_product_def block_price_def block_url_def u_def)



lemma short_site_rendered:
  "\<not> get_raises (short_site p 0) \<and> \<not> no_marker (short_site p 0) \<and> \<not> source_raises (short_site p 0)"
  by (simp add: short_site_def no_marker_def)

lemma short_site_records:
  "page_records short_site (u ''Tools'') p = (if p < 3 then [plain_product] else [])"
  using short_site_rendered[of p]
  by (simp add: page_records_def scrape_page_rendered) (simp add: short_site_def plain_block_eval)



lemma page_loop_continue:
  "\<forall>j\<in>set ps. \<not> (page_records br cat j = [] \<and> 1 < j) \<Longrightarrow>
   page_loop br cat (ps @ rest) acc d
     = page_loop br cat rest (acc @ concat (map (page_records br cat) ps))
         (d @ concat (map (page_visits br cat) ps))"
  by (induction ps arbitrary: acc d) (auto simp: scrape_page_eq)

lemma page_loop_stop:
  "page_records br cat m = [] \<Longrightarrow> 1 < m \<Longrightarrow>
   page_loop br cat (m # rest) acc d = (Inr acc, d @ page_visits br cat m)"
  by (simp add: scrape_page_eq)

text \<open>
  C9. During a category crawl, if some page with a page number greater than 1 returns
  zero records, no later page of that category is fetched and all records collected from
  the earlier pages are kept; page 1 returning zero records never triggers the early
  stop.  With \<open>k\<close> such a page, the crawl stops at the first page \<open>m\<close> after page 1
  that is empty: the pages the driver is sent to are exactly \<open>1..m\<close>, whatever page 1
  returned, and the result is the concatenation of the records of the pages before \<open>m\<close>.
\<close>

theorem early_stop:
  assumes k: "1 < k" "k \<le> n" and empty: "page_records br cat k = []"
  shows "\<exists>m drv'. 1 < m \<and> m \<le> k \<and> page_records br cat m = [] \<and>
           (\<forall>j. 1 < j \<and> j < m \<longrightarrow> page_records br cat j \<noteq> []) \<and>
           scrape_category br cat n drv
             = (Inr (concat (map (page_records br cat) [1..<m])), drv @ drv') \<and>
           set drv' = {1..m}"
proof -
  define P where "P j \<longleftrightarrow> 1 < j \<and> page_records br cat j = []" for j
  define m where "m = (LEAST j. P j)"
  have Pk: "P k" using k empty by (simp add: P_def)
  then have Pm: "P m" unfolding m_def by (rule LeastI)
  have mk: "m \<le> k" unfolding m_def using Pk by (rule Least_le)
  have least: "\<And>j. j < m \<Longrightarrow> \<not> P j" unfolding m_def by (rule not_less_Least)
  from Pm have m1: "1 < m" and me: "page_records br cat m = []" by (auto simp: P_def)
  have a: "[1..<m + (n + 1 - m)] = [1..<m] @ [m..<m + (n + 1 - m)]"
    using m1 by (intro upt_add_eq_append) simp
  have b: "m + (n + 1 - m) = n + 1" using mk k by simp
  have c: "[m..<n + 1] = m # [m + 1..<n + 1]" using mk k by (simp add: upt_conv_Cons)
  have split: "[1..<n + 1] = [1..<m] @ m # [m + 1..<n + 1]"
    using a b c by simp
  have cont: "\<forall>j\<in>set [1..<m]. \<not> (page_records br cat j = [] \<and> 1 < j)"
    using least by (auto simp: P_def)
  define drv' where "drv' = concat (map (page_visits br cat) [1..<m]) @ page_visits br cat m"
  have run: "scrape_category br cat n drv
      = (Inr (concat (map (page_records br cat) [1..<m])), drv @ drv')"
    unfolding scrape_category_def split
    by (simp only: page_loop_continue[OF cont] page_loop_stop[OF me m1] drv'_def append_Nil append_assoc)
  have "set drv' = {1..m}"
    using m1 by (auto simp: drv'_def set_page_visits)
  with run m1 mk me least show ?thesis
    unfolding P_def by blast
qed

text \<open>
  The theorem at a crawl of 5 pages of a site whose third page is empty.
\<close>

theorem early_stop_witness:
  "1 < (3::nat) \<and> (3::nat) \<le> 5 \<and> page_records short_site (u ''Tools'') 3 = [] \<and>
   (\<exists>m drv'. 1 < m \<and> m \<le> 3 \<and> page_records short_site (u ''Tools'') m = [] \<and>
      (\<forall>j. 1 < j \<and> j < m \<longrightarrow> page_records short_site (u ''Tools'') j \<noteq> []) \<and>
      scrape_category short_site (u ''Tools'') 5 []
        = (Inr (concat (map (page_records short_site (u ''Tools'')) [1..<m])), [] @ drv') \<and>
      set drv' = {1..m})"
proof -
  have a: "1 < (3::nat)" and b: "(3::nat) \<le> 5" by simp_all
  have h: "page_records short_site (u ''Tools'') 3 = []" by (simp add: short_site_records)
  from early_stop[OF a b h, of "[]"] a b h show ?thesis by blast
qed

section \<open>Properties of the derived feature engine\<close>

lemma df_heap:
  assumes "df < length h"
  shows "create_derived_features h df = (h @ [derive (h ! df)], length h)"
  using assms
  by (simp add: create_derived_features_def df_copy_def df_assign_def derive_def Let_def nth_append)

lemma derived_table_eq:
  "derived_table pf raw = derive (drop_missing_names (clean_columns pf raw))"
  by (simp add: derived_table_def df_heap Let_def)

lemma sort_Nil_iff: "sort xs = [] \<longleftrightarrow> xs = []"
  by (metis length_sort length_0_conv)

lemma median_defined: "non_null xs \<noteq> [] \<Longrightarrow> median xs \<noteq> None"
  by (simp add: median_def Let_def sort_Nil_iff del: not_None_eq)

lemma non_null_Some: "Some x \<in> set xs \<Longrightarrow> non_null xs \<noteq> []"
  by (induction xs) (auto simp: non_null_def)

lemma fillna_Some: "\<exists>y. fillna v x = Some y"
  by (cases x) (simp_all add: fillna_def)

lemma imputed_Price: "r \<in> set (imputed df) \<Longrightarrow> Price r \<noteq> None"
  by (auto simp: imputed_def fill_price_overall_def Let_def fillna_Some)

lemma imputed_Rating: "r \<in> set (imputed df) \<Longrightarrow> Rating r \<noteq> None"
  by (auto simp: imputed_def fill_price_overall_def fill_price_by_category_def fill_rating_def
      Let_def fillna_Some)

lemma imputed_ReviewCount: "r \<in> set (imputed df) \<Longrightarrow> ReviewCount r \<noteq> None"
  by (auto simp: imputed_def fill_price_overall_def fill_price_by_category_def fill_rating_def
      fill_review_count_def Let_def fillna_Some)

lemma derive_imputed: "derive df = add_price_per_review (add_is_high_value (imputed df))"
  by (simp add: derive_def imputed_def)

lemma length_imputed: "length (imputed df) = length df"
  by (simp add: imputed_def fill_price_overall_def fill_price_by_category_def fill_rating_def
      fill_review_count_def Let_def)

lemma length_derive: "length (derive df) = length df"
  by (simp add: derive_imputed add_price_per_review_def add_is_high_value_def Let_def length_imputed)

lemma imputed_text:
  "map Category (imputed df) = map Category df"
  "map ProductName (imputed df) = map ProductName df"
  "map ProductURL (imputed df) = map ProductURL df"
  by (simp_all add: imputed_def fill_price_overall_def fill_price_by_category_def fill_rating_def
      fill_review_count_def Let_def comp_def)

lemma derive_text:
  "map Category (derive df) = map Category df"
  "map ProductName (derive df) = map ProductName df"
  "map ProductURL (derive df) = map ProductURL df"
  using imputed_text[of df]
  by (simp_all add: derive_imputed add_price_per_review_def add_is_high_value_def Let_def comp_def)

lemma group_prices_derive: "group_prices (derive df) c = group_prices (imputed df) c"
  by (simp add: derive_imputed add_price_per_review_def add_is_high_value_def Let_def
      group_prices_def filter_map comp_def)

lemma price_per_review_upd: "price_per_review (r\<lparr>IsHighValue := v\<rparr>) = price_per_review r"
  by (simp add: price_per_review_def)

lemma derive_nth:
  assumes "i < length df"
  shows "derive df ! i = (imputed df ! i)
           \<lparr>IsHighValue := Some (calculate_is_high_value (groupby_median (imputed df)) (imputed df ! i)),
            PricePerReview := price_per_review (imputed df ! i)\<rparr>"
  using assms
  by (simp add: derive_imputed add_price_per_review_def add_is_high_value_def Let_def length_imputed
      price_per_review_upd)

lemma derive_row:
  assumes "r \<in> set (derive df)"
  shows "\<exists>r0\<in>set (imputed df). r = r0
           \<lparr>IsHighValue := Some (calculate_is_high_value (groupby_median (imputed df)) r0),
            PricePerReview := price_per_review r0\<rparr>"
  using assms
  by (auto simp: derive_imputed add_price_per_review_def add_is_high_value_def Let_def
      price_per_review_upd)

lemma derive_no_nulls: "no_nulls (derive df)"
proof -
  have "Price r \<noteq> None \<and> Rating r \<noteq> None \<and> ReviewCount r \<noteq> None \<and> PricePerReview r \<noteq> None"
    if "r \<in> set (derive df)" for r
  proof -
    from derive_row[OF that] obtain r0 where r0: "r0 \<in> set (imputed df)"
      and r: "r = r0\<lparr>IsHighValue := Some (calculate_is_high_value (groupby_median (imputed df)) r0),
            PricePerReview := price_per_review r0\<rparr>" by blast
    from r0 obtain p x n where "Price r0 = Some p" "Rating r0 = Some x" "ReviewCount r0 = Some n"
      using imputed_Price imputed_Rating imputed_ReviewCount by fastforce
    then show ?thesis by (simp add: r price_per_review_def)
  qed
  then show ?thesis by (simp add: no_nulls_def list_all_iff)
qed

lemma round_columns_no_nulls: "no_nulls df \<Longrightarrow> no_nulls (round_columns df)"
  by (auto simp: no_nulls_def round_columns_def Let_def list_all_iff)

lemma validate_ok: "no_nulls df \<Longrightarrow> validate_and_save df = (Inr df, Some df)"
  by (auto simp: no_nulls_def validate_and_save_def list_all_iff)


lemma derive_int_columns: "int_columns (derive df)"
proof -
  have "ReviewCount r \<noteq> None \<and> IsHighValue r \<noteq> None" if "r \<in> set (derive df)" for r
  proof -
    from derive_row[OF that] obtain r0 where r0: "r0 \<in> set (imputed df)"
      and r: "r = r0\<lparr>IsHighValue := Some (calculate_is_high_value (groupby_median (imputed df)) r0),
            PricePerReview := price_per_review r0\<rparr>" by blast
    from r0 obtain n where "ReviewCount r0 = Some n"
      using imputed_ReviewCount by fastforce
    then show ?thesis by (simp add: r)
  qed
  then show ?thesis by (simp add: int_columns_def list_all_iff)
qed


lemma cast_columns_ok: "int_columns df \<Longrightarrow> cast_columns df = Inr df"
  by (auto simp: int_columns_def cast_columns_def list_all_iff)



lemma finish_table_ok:
  "no_nulls df \<Longrightarrow> int_columns df \<Longrightarrow>
   finish_table df = (Inr (round_columns df), Some (round_columns df))"
  by (simp add: finish_table_def cast_columns_ok validate_ok round_columns_no_nulls)



lemma clean_data_returns:
  "clean_data pf raw = (Inr (round_columns (derived_table pf raw)), Some (round_columns (derived_table pf raw)))"
  by (simp add: clean_data_def finish_table_ok derived_table_eq derive_no_nulls derive_int_columns)

lemma rint_lower: "0 \<le> x \<Longrightarrow> 0 \<le> rint x"
  by (auto simp: rint_def Let_def)

lemma rint_upper: "x \<le> of_int n \<Longrightarrow> rint x \<le> n"
proof -
  assume x: "x \<le> of_int n"
  then have f: "\<lfloor>x\<rfloor> \<le> n" by (simp add: floor_le_iff) 
  show ?thesis
  proof (cases "x = of_int n")
    case True
    then show ?thesis by (simp add: rint_def Let_def)
  next
    case False
    with x have "x < of_int n" by simp
    then have "\<lfloor>x\<rfloor> < n" by (simp add: floor_less_iff)
    then show ?thesis by (auto simp: rint_def Let_def)
  qed
qed

lemma round2_range: "0 \<le> v \<Longrightarrow> v \<le> 5 \<Longrightarrow> 0 \<le> round2 v \<and> round2 v \<le> 5"
proof -
  assume v: "0 \<le> v" "v \<le> 5"
  then have "0 \<le> rint (v * 100)" by (intro rint_lower) simp
  moreover have "rint (v * 100) \<le> 500" using v by (intro rint_upper) simp
  ultimately show ?thesis by (simp add: round2_def)
qed

lemma extract_rating_range: "extract_rating t = Some w \<Longrightarrow> 0 \<le> w \<and> w \<le> 5"
  by (auto simp: extract_rating_def Let_def split: if_splits option.splits)

lemma Rating_imputed: "map Rating (imputed df) = map (\<lambda>r. fillna 0 (Rating r)) df"
  by (simp add: imputed_def fill_price_overall_def fill_price_by_category_def fill_rating_def
      fill_review_count_def Let_def comp_def)

lemma Rating_derive: "map Rating (derive df) = map (\<lambda>r. fillna 0 (Rating r)) df"
  using Rating_imputed[of df]
  by (simp add: derive_imputed add_price_per_review_def add_is_high_value_def Let_def comp_def)

lemma Rating_round_columns: "map Rating (round_columns df) = map (\<lambda>r. map_option round2 (Rating r)) df"
  by (simp add: round_columns_def Let_def comp_def)

lemma kept_columns:
  "drop_missing_names (clean_columns pf raw) = clean_columns pf (kept_rows raw)"
  by (simp add: drop_missing_names_def clean_columns_def kept_rows_def filter_map comp_def)

lemma out_Rating:
  assumes "r \<in> set (round_columns (derived_table pf raw))"
  shows "\<exists>x\<in>set raw. Rating r = map_option round2 (fillna 0 (clean_rating pf (raw_Rating x)))"
proof -
  define X where "X = drop_missing_names (clean_columns pf raw)"
  from assms have "Rating r \<in> set (map Rating (round_columns (derive X)))"
    by (simp add: derived_table_eq X_def)
  then have "Rating r \<in> set (map (\<lambda>r. map_option round2 (Rating r)) (derive X))"
    by (simp only: Rating_round_columns)
  then obtain d where d: "d \<in> set (derive X)" and rd: "Rating r = map_option round2 (Rating d)"
    by auto
  from d have "Rating d \<in> set (map Rating (derive X))" by simp
  then have "Rating d \<in> set (map (\<lambda>r. fillna 0 (Rating r)) X)" by (simp only: Rating_derive)
  then obtain c where c: "c \<in> set X" and dc: "Rating d = fillna 0 (Rating c)" by auto
  from c obtain x where "x \<in> set raw" "Rating c = clean_rating pf (raw_Rating x)"
    by (auto simp: X_def drop_missing_names_def clean_columns_def)
  then show ?thesis using rd dc by auto
qed

lemma clean_rating_range:
  "rating_in_range pf c \<Longrightarrow> \<exists>v. fillna 0 (clean_rating pf c) = Some v \<and> 0 \<le> v \<and> v \<le> 5"
  by (cases c) (auto simp: rating_in_range_def clean_rating_def fillna_def split: sum.splits option.splits)

section \<open>The example tables, evaluated\<close>

lemmas string_eval = u_def strip_def py_isspace_def astype_str_def is_digit_def search_digits_def
  py_int_def float_digits_dots_def decimal_value_def

lemmas impute_eval = fill_price_by_category_def fill_price_overall_def group_prices_def median_def
  non_null_def fillna_def Let_def

lemmas flag_eval = add_is_high_value_def groupby_median_def group_prices_def median_def
  non_null_def calculate_is_high_value_def Let_def

lemma clean_data_eval:
  "round_columns (derive (drop_missing_names (clean_columns pf raw))) = out \<Longrightarrow>
   clean_data pf raw = (Inr out, Some out)"
  using clean_data_returns[of pf raw] by (simp add: derived_table_eq)

lemma shelf_derive: "derive shelf = shelf_derived"
  apply (simp add: shelf_def derive_def fill_review_count_def fill_rating_def fillna_def)
  apply (simp add: u_def)
  apply (simp add: fill_price_by_category_def group_prices_def median_def non_null_def fillna_def Let_def
      del: not_None_eq)
  apply (simp add: fill_price_overall_def median_def non_null_def fillna_def Let_def)
  apply (simp add: flag_eval)
  apply (simp add: add_price_per_review_def price_per_review_def shelf_derived_def u_def)
  done

lemma shelf_heap: "create_derived_features [shelf] 0 = ([shelf, shelf_derived], 1)"
  by (simp add: df_heap shelf_derive)

lemma skew_eval: "clean_data float_of_decimal skew_raw = (Inr skew_cleaned, Some skew_cleaned)"
  apply (rule clean_data_eval)
  apply (simp add: skew_raw_def clean_columns_def clean_price_def clean_rating_def
      clean_review_count_def py_trunc_def string_eval)
  apply (simp add: drop_missing_names_def)
  apply (simp add: derive_def fill_review_count_def fill_rating_def fillna_def)
  apply (simp add: fill_price_by_category_def group_prices_def median_def non_null_def fillna_def Let_def
      del: not_None_eq)
  apply (simp add: fill_price_overall_def median_def non_null_def fillna_def Let_def)
  apply (simp add: flag_eval)
  apply (simp add: add_price_per_review_def price_per_review_def)
  apply (simp add: round_columns_def round2_def rint_def Let_def skew_cleaned_def u_def)
  done

lemma offscale_eval:
  "clean_data float_of_decimal offscale_raw = (Inr offscale_cleaned, Some offscale_cleaned)"
  apply (rule clean_data_eval)
  apply (simp add: offscale_raw_def clean_columns_def clean_price_def clean_rating_def
      clean_review_count_def py_trunc_def string_eval)
  apply (simp add: drop_missing_names_def)
  apply (simp add: derive_def fill_review_count_def fill_rating_def fillna_def)
  apply (simp add: fill_price_by_category_def group_prices_def median_def non_null_def fillna_def Let_def
      del: not_None_eq)
  apply (simp add: fill_price_overall_def median_def non_null_def fillna_def Let_def)
  apply (simp add: flag_eval)
  apply (simp add: add_price_per_review_def price_per_review_def)
  apply (simp add: round_columns_def round2_def rint_def Let_def offscale_cleaned_def u_def)
  done

lemma tie_derive:
  "derive (drop_missing_names (clean_columns float_of_decimal tie_raw)) = tie_derived"
  apply (simp add: tie_raw_def clean_columns_def clean_price_def clean_rating_def
      clean_review_count_def py_trunc_def string_eval)
  apply (simp add: drop_missing_names_def)
  apply (simp add: derive_def fill_review_count_def fill_rating_def fillna_def)
  apply (simp add: fill_price_by_category_def group_prices_def median_def non_null_def fillna_def Let_def
      del: not_None_eq)
  apply (simp add: fill_price_overall_def median_def non_null_def fillna_def Let_def
      del: not_None_eq)
  apply (simp add: flag_eval del: not_None_eq)
  apply (simp add: add_price_per_review_def price_per_review_def tie_derived_def u_def)
  done

lemma tie_derived_table: "derived_table float_of_decimal tie_raw = tie_derived"
  by (simp add: derived_table_eq tie_derive)

lemma tie_eval: "clean_data float_of_decimal tie_raw = (Inr tie_cleaned, Some tie_cleaned)"
  apply (rule clean_data_eval)
  apply (simp only: tie_derive)
  apply (simp add: tie_derived_def round_columns_def round2_def rint_def Let_def tie_cleaned_def)
  done

lemma tie_medians:
  "median (group_prices tie_derived (u ''Tools'')) = Some 10.005"
  "median (group_prices tie_cleaned (u ''Tools'')) = Some 10"
  by (simp_all add: tie_derived_def tie_cleaned_def group_prices_def median_def non_null_def Let_def
      del: not_None_eq)

lemma offscale_kept: "kept_rows offscale_raw = offscale_raw"
  by (simp add: kept_rows_def offscale_raw_def astype_str_def u_def strip_def py_isspace_def)

lemma null_name_eval:
  "clean_data float_of_decimal null_name_raw = (Inr null_name_cleaned, Some null_name_cleaned)"
  apply (rule clean_data_eval)
  apply (simp add: null_name_raw_def clean_columns_def clean_price_def clean_rating_def
      clean_review_count_def py_trunc_def string_eval)
  apply (simp add: drop_missing_names_def)
  apply (simp add: derive_def fill_review_count_def fill_rating_def fillna_def)
  apply (simp add: fill_price_by_category_def group_prices_def median_def non_null_def fillna_def Let_def
      del: not_None_eq)
  apply (simp add: fill_price_overall_def median_def non_null_def fillna_def Let_def)
  apply (simp add: flag_eval)
  apply (simp add: add_price_per_review_def price_per_review_def)
  apply (simp add: round_columns_def round2_def rint_def Let_def null_name_cleaned_def u_def)
  done

lemma strip_eval: "strip (u ''Tools'') = u ''Tools''" "strip (u ''Drill'') = u ''Drill''"
  "strip (u ''Saw'') = u ''Saw''" "strip (u ''/a'') = u ''/a''" "strip (u ''/b'') = u ''/b''"
  by (simp_all add: u_def strip_def py_isspace_def)

lemma rating_eval: "float_of_decimal (u ''4.8'') = Inr (Some 4.8)" "float_of_decimal (u ''3.0'') = Inr (Some 3)"
  by (simp_all add: float_of_decimal_def float_digits_dots_def u_def is_digit_def decimal_value_def py_int_def)

lemma count_eval: "clean_review_count (Str (u ''3 reviews'')) = 3" "clean_review_count (Str (u ''0'')) = 0"
  by (simp_all add: clean_review_count_def search_digits_def u_def is_digit_def py_int_def)

lemma replace_eval: "replace (u ''$'') [] (replace (u ''US$'') [] (u ''US$12.50'')) = u ''12.50''"
  by (simp add: u_def)

lemma price_eval: "clean_price (Str (u ''US$12.50'')) = Some 12.5"
  apply (simp only: clean_price_def cell.case replace_eval)
  apply (simp add: u_def strip_def py_isspace_def is_digit_def)
  apply (simp add: float_digits_dots_def is_digit_def decimal_value_def py_int_def)
  done

lemma scenario_columns:
  "drop_missing_names (clean_columns float_of_decimal scenario_raw) =
     [\<lparr>Category = u ''Tools'', ProductName = u ''Drill'', Price = Some 12.5, Rating = Some 4.8,
       ReviewCount = Some 3, ProductURL = u ''/a'', IsHighValue = None, PricePerReview = None\<rparr>,
      \<lparr>Category = u ''Tools'', ProductName = u ''Saw'', Price = None, Rating = Some 3,
       ReviewCount = Some 0, ProductURL = u ''/b'', IsHighValue = None, PricePerReview = None\<rparr>]"
  apply (simp add: scenario_raw_def clean_columns_def astype_str_def strip_eval price_eval
      clean_rating_def rating_eval count_eval)
  apply (simp add: drop_missing_names_def clean_price_def u_def)
  done

lemma scenario_eval:
  "clean_data float_of_decimal scenario_raw = (Inr scenario_cleaned, Some scenario_cleaned)"
  apply (rule clean_data_eval)
  apply (simp only: scenario_columns)
  apply (simp add: derive_def fill_review_count_def fill_rating_def fillna_def)
  apply (simp add: u_def)
  apply (simp add: fill_price_by_category_def group_prices_def median_def non_null_def fillna_def Let_def
      del: not_None_eq)
  apply (simp add: fill_price_overall_def median_def non_null_def fillna_def Let_def)
  apply (simp add: flag_eval)
  apply (simp add: add_price_per_review_def price_per_review_def)
  apply (simp add: round_columns_def round2_def rint_def Let_def scenario_cleaned_def u_def)
  done

lemma extract_rating_eval: "extract_rating (u ''4.5'') = Some 4.5" "extract_rating (u ''9'') = None"
  by (simp_all add: extract_rating_def clean_text_def strip_def py_isspace_def replace_char_def
      is_control_def search_number_def is_digit_def py_int_def u_def decimal_value_def)

lemma scenario_ratings: "\<forall>x\<in>set scenario_raw. rating_in_range float_of_decimal (raw_Rating x)"
  by (simp add: scenario_raw_def rating_in_range_def rating_eval)

section \<open>Properties of the cleaning pipeline\<close>




text \<open>
  C2 as stated fails: \<open>PricePerReview\<close> is computed from the price before it is rounded.
  A raw price of 0.066 with 2 reviews gives the final \<open>Price\<close> 0.07 and
  \<open>PricePerReview = round(0.033, 2) = 0.03\<close>, whereas
  \<open>round(0.07 / max(2, 1), 2) = round(0.035, 2) = 0.04\<close>.
\<close>

theorem ppr_final_price_counterexample:
  "clean_data float_of_decimal skew_raw = (Inr skew_cleaned, Some skew_cleaned) \<and>
   PricePerReview (hd skew_cleaned)
     \<noteq> Some (round2 (the (Price (hd skew_cleaned)) / of_int (max (the (ReviewCount (hd skew_cleaned))) 1)))"
  by (simp add: skew_eval) (simp add: skew_cleaned_def round2_def rint_def)

text \<open>
  C2, amended.  The cleaned table has the rows of the table after derivation, in the same
  order, and for every row \<open>PricePerReview = round(p / max(ReviewCount, 1), 2)\<close>, where
  \<open>p\<close> is the row's \<open>Price\<close> after imputation and before it is rounded, \<open>ReviewCount\<close> is
  the row's value in the final table, and the final \<open>Price\<close> of the row is \<open>round(p, 2)\<close>.
\<close>

theorem ppr_formula:
  assumes "clean_data pf raw = (Inr out, saved)"
  shows "length out = length (derived_table pf raw) \<and>
         (\<forall>i<length out. \<exists>p n.
            Price (derived_table pf raw ! i) = Some p \<and>
            ReviewCount (out ! i) = Some n \<and>
            Price (out ! i) = Some (round2 p) \<and>
            PricePerReview (out ! i) = Some (round2 (p / of_int (max n 1))))"
proof -
  define X where "X = drop_missing_names (clean_columns pf raw)"
  have D: "derived_table pf raw = derive X" by (simp add: derived_table_eq X_def)
  from assms have out: "out = round_columns (derive X)"
    by (simp add: clean_data_returns D)
  have len: "length out = length X" by (simp add: out round_columns_def Let_def length_derive)
  have "\<exists>p n. Price (derive X ! i) = Some p \<and> ReviewCount (out ! i) = Some n \<and>
            Price (out ! i) = Some (round2 p) \<and>
            PricePerReview (out ! i) = Some (round2 (p / of_int (max n 1)))"
    if i: "i < length X" for i
  proof -
    have "imputed X ! i \<in> set (imputed X)" using i by (simp add: length_imputed)
    then obtain p n where pn: "Price (imputed X ! i) = Some p" "ReviewCount (imputed X ! i) = Some n"
      using imputed_Price imputed_ReviewCount by fastforce
    show ?thesis
      using i pn by (simp add: out round_columns_def Let_def length_derive derive_nth price_per_review_def)
  qed
  then show ?thesis by (simp add: len D length_derive)
qed

text \<open>The theorem at the scenario's table.\<close>

theorem ppr_formula_witness:
  "clean_data float_of_decimal scenario_raw = (Inr scenario_cleaned, Some scenario_cleaned) \<and>
   length scenario_cleaned = length (derived_table float_of_decimal scenario_raw) \<and>
   (\<exists>p n. Price (derived_table float_of_decimal scenario_raw ! 0) = Some p \<and>
      ReviewCount (scenario_cleaned ! 0) = Some n \<and>
      Price (scenario_cleaned ! 0) = Some (round2 p) \<and>
      PricePerReview (scenario_cleaned ! 0) = Some (round2 (p / of_int (max n 1)))) \<and>
   PricePerReview (scenario_cleaned ! 0) = Some 4.17"
proof -
  have len: "0 < length scenario_cleaned" by (simp add: scenario_cleaned_def)
  have ppr: "PricePerReview (scenario_cleaned ! 0) = Some 4.17" by (simp add: scenario_cleaned_def)
  from ppr_formula[OF scenario_eval] len scenario_eval ppr show ?thesis by blast
qed

text \<open>
  C3 as stated fails on the cleaned table: the flag is computed before \<open>Price\<close> and
  \<open>Rating\<close> are rounded.  Of three rows of one category with the prices 10, 10.01 and
  null, the third gets the price 10.005, the median after imputation.  In the cleaned
  table the third row has \<open>Rating\<close> 5 and \<open>Price\<close> 10, below that median, and is not
  flagged; the first row is flagged although its \<open>Price\<close> 10 is not below the median 10 of
  the cleaned prices.
\<close>

theorem is_high_value_cleaned_counterexample:
  "clean_data float_of_decimal tie_raw = (Inr tie_cleaned, Some tie_cleaned) \<and>
   IsHighValue (tie_cleaned ! 2) = Some 0 \<and>
   4.5 \<le> the (Rating (tie_cleaned ! 2)) \<and>
   the (Price (tie_cleaned ! 2))
     < the (median (group_prices (derived_table float_of_decimal tie_raw) (Category (tie_cleaned ! 2)))) \<and>
   IsHighValue (tie_cleaned ! 0) = Some 1 \<and>
   \<not> the (Price (tie_cleaned ! 0))
       < the (median (group_prices tie_cleaned (Category (tie_cleaned ! 0))))"
proof -
  have c: "Category (tie_cleaned ! 2) = u ''Tools''" "Category (tie_cleaned ! 0) = u ''Tools''"
    by (simp_all add: tie_cleaned_def)
  have v: "IsHighValue (tie_cleaned ! 2) = Some 0" "Rating (tie_cleaned ! 2) = Some 5"
    "Price (tie_cleaned ! 2) = Some 10" "IsHighValue (tie_cleaned ! 0) = Some 1"
    "Price (tie_cleaned ! 0) = Some 10"
    by (simp_all add: tie_cleaned_def)
  show ?thesis
    by (simp add: tie_eval tie_derived_table c v tie_medians)
qed

text \<open>
  C3, amended.  After derivation, that is for every row of the table
  \<open>create_derived_features\<close> returns, before \<open>clean_data\<close> rounds \<open>Price\<close> and \<open>Rating\<close>:
  \<open>Rating\<close> and \<open>Price\<close> are not null, the median of the post-imputation prices of the
  row's category is defined, and \<open>IsHighValue = 1\<close> if \<open>Rating >= 4.5\<close> and \<open>Price\<close> is
  strictly less than that median, \<open>IsHighValue = 0\<close> otherwise.  A row whose category median
  is undefined (the category is missing from the medians, or its median is NaN) uses its
  own price as the median and is never flagged.  The cleaned table \<open>clean_data\<close> returns
  has the flags of its table after derivation, with \<open>Price\<close> and \<open>Rating\<close> rounded to two
  decimals.
\<close>

theorem is_high_value_rule:
  assumes "df < length h" and "create_derived_features h df = (h', out)"
  shows "(\<forall>r\<in>set (h' ! out). \<exists>x p m. Rating r = Some x \<and> Price r = Some p \<and>
            median (group_prices (h' ! out) (Category r)) = Some m \<and>
            IsHighValue r = Some (if 4.5 \<le> x \<and> p < m then 1 else 0)) \<and>
         (category_medians (Category r0) = None \<or> category_medians (Category r0) = Some None
            \<longrightarrow> calculate_is_high_value category_medians r0 = 0) \<and>
         (clean_data pf raw = (Inr cleaned, saved)
            \<longrightarrow> map IsHighValue cleaned = map IsHighValue (derived_table pf raw) \<and>
                map Price cleaned = map (\<lambda>r. map_option round2 (Price r)) (derived_table pf raw) \<and>
                map Rating cleaned = map (\<lambda>r. map_option round2 (Rating r)) (derived_table pf raw))"
proof (intro conjI)
  from assms have out: "h' ! out = derive (h ! df)"
    by (auto simp: df_heap)
  show "\<forall>r\<in>set (h' ! out). \<exists>x p m. Rating r = Some x \<and> Price r = Some p \<and>
            median (group_prices (h' ! out) (Category r)) = Some m \<and>
            IsHighValue r = Some (if 4.5 \<le> x \<and> p < m then 1 else 0)"
  proof
    fix r assume "r \<in> set (h' ! out)"
    then have "r \<in> set (derive (h ! df))" by (simp add: out)
    from derive_row[OF this] obtain r0 where r0: "r0 \<in> set (imputed (h ! df))"
      and r: "r = r0\<lparr>IsHighValue := Some (calculate_is_high_value (groupby_median (imputed (h ! df))) r0),
            PricePerReview := price_per_review r0\<rparr>" by blast
    from r0 obtain p x where px: "Price r0 = Some p" "Rating r0 = Some x"
      using imputed_Price imputed_Rating by fastforce
    have "Some p \<in> set (group_prices (imputed (h ! df)) (Category r0))"
      using r0 px by (force simp: group_prices_def)
    then obtain m where m: "median (group_prices (imputed (h ! df)) (Category r0)) = Some m"
      using median_defined non_null_Some by fastforce
    have gm: "groupby_median (imputed (h ! df)) (Category r0) = Some (Some m)"
      using r0 m by (simp add: groupby_median_def)
    have flag: "calculate_is_high_value (groupby_median (imputed (h ! df))) r0
        = (if 4.5 \<le> x \<and> p < m then 1 else 0)"
      by (simp add: calculate_is_high_value_def gm px)
    show "\<exists>x p m. Rating r = Some x \<and> Price r = Some p \<and>
            median (group_prices (h' ! out) (Category r)) = Some m \<and>
            IsHighValue r = Some (if 4.5 \<le> x \<and> p < m then 1 else 0)"
      using px m flag by (simp add: r out group_prices_derive)
  qed
  show "category_medians (Category r0) = None \<or> category_medians (Category r0) = Some None
            \<longrightarrow> calculate_is_high_value category_medians r0 = 0"
    by (auto simp: calculate_is_high_value_def split: option.splits)
  show "clean_data pf raw = (Inr cleaned, saved)
            \<longrightarrow> map IsHighValue cleaned = map IsHighValue (derived_table pf raw) \<and>
                map Price cleaned = map (\<lambda>r. map_option round2 (Price r)) (derived_table pf raw) \<and>
                map Rating cleaned = map (\<lambda>r. map_option round2 (Rating r)) (derived_table pf raw)"
    by (auto simp: clean_data_returns round_columns_def Let_def comp_def)
qed

text \<open>
  The theorem at a frame of four rows, the first of which is flagged, at a row looked up
  in an empty series of medians, and at the scenario's table.
\<close>

theorem is_high_value_rule_witness:
  "0 < length [shelf] \<and> create_derived_features [shelf] 0 = ([shelf, shelf_derived], 1) \<and>
   (\<exists>x p m. Rating (hd shelf_derived) = Some x \<and> Price (hd shelf_derived) = Some p \<and>
      median (group_prices shelf_derived (Category (hd shelf_derived))) = Some m \<and>
      IsHighValue (hd shelf_derived) = Some (if 4.5 \<le> x \<and> p < m then 1 else 0)) \<and>
   map IsHighValue shelf_derived = [Some 1, Some 0, Some 0, Some 0] \<and>
   calculate_is_high_value (\<lambda>c. None) (hd shelf) = 0 \<and>
   clean_data float_of_decimal scenario_raw = (Inr scenario_cleaned, Some scenario_cleaned) \<and>
   map IsHighValue scenario_cleaned = map IsHighValue (derived_table float_of_decimal scenario_raw)"
proof -
  have a: "0 < length [shelf]" by simp
  have flags: "map IsHighValue shelf_derived = [Some 1, Some 0, Some 0, Some 0]"
    by (simp add: shelf_derived_def)
  have row: "hd shelf_derived \<in> set ([shelf, shelf_derived] ! 1)"
    by (simp add: shelf_derived_def)
  have none: "(\<lambda>c. None) (Category (hd shelf)) = (None :: real option option)" by simp
  note t = is_high_value_rule[OF a shelf_heap, of "\<lambda>c. None" "hd shelf" float_of_decimal
      scenario_raw scenario_cleaned "Some scenario_cleaned"]
  have 1: "\<exists>x p m. Rating (hd shelf_derived) = Some x \<and> Price (hd shelf_derived) = Some p \<and>
      median (group_prices shelf_derived (Category (hd shelf_derived))) = Some m \<and>
      IsHighValue (hd shelf_derived) = Some (if 4.5 \<le> x \<and> p < m then 1 else 0)"
    using t row by fastforce
  have 2: "calculate_is_high_value (\<lambda>c. None) (hd shelf) = 0"
    using t none by blast
  have 3: "map IsHighValue scenario_cleaned
      = map IsHighValue (derived_table float_of_decimal scenario_raw)"
    using t scenario_eval by blast
  from a shelf_heap flags 1 2 3 scenario_eval show ?thesis by blast
qed

text \<open>
  The rows \<open>clean_data\<close> keeps: those whose name, after \<open>astype(str)\<close> and \<open>strip()\<close>, is
  not the empty string.  No other statement removes a row.
\<close>

lemma cleaned_names:
  assumes "clean_data pf raw = (Inr out, saved)"
  shows "map ProductName out
           = filter (\<lambda>name. name \<noteq> []) (map (\<lambda>x. strip (astype_str (raw_ProductName x))) raw)"
proof -
  from assms have "out = round_columns (derive (drop_missing_names (clean_columns pf raw)))"
    by (simp add: clean_data_returns derived_table_eq)
  then have "map ProductName out = map ProductName (drop_missing_names (clean_columns pf raw))"
    by (simp add: round_columns_def Let_def comp_def derive_text)
  then show ?thesis
    by (simp add: drop_missing_names_def clean_columns_def filter_map comp_def)
qed

text \<open>
  C5. \<open>clean_data\<close> drops the rows whose \<open>ProductName\<close> trims to the empty string, but
  not the rows whose \<open>ProductName\<close> is null: \<open>astype(str)\<close> turns the null into the string
  \<open>nan\<close> before line 126 tests it.  Of a table with a row without a name and a row whose
  name is two spaces, the cleaned table keeps the first, under the name \<open>nan\<close>.
\<close>

theorem null_name_kept:
  "map raw_ProductName null_name_raw = [None, Some (u ''  '')] \<and>
   clean_data float_of_decimal null_name_raw = (Inr null_name_cleaned, Some null_name_cleaned) \<and>
   map ProductName null_name_cleaned = [u ''nan'']"
  by (simp add: null_name_eval) (simp add: null_name_raw_def null_name_cleaned_def)

text \<open>
  C6 as stated fails: \<open>clean_rating\<close> has no range check.  A raw rating of 9 is 9 in the
  cleaned table, while \<open>extract_rating\<close> rejects the text \<open>9\<close>.
\<close>

theorem rating_range_counterexample:
  "clean_data float_of_decimal offscale_raw = (Inr offscale_cleaned, Some offscale_cleaned) \<and>
   \<not> (0 \<le> the (Rating (hd offscale_cleaned)) \<and> the (Rating (hd offscale_cleaned)) \<le> 5) \<and>
   extract_rating (u ''9'') = None \<and> clean_rating float_of_decimal (Num 9) = Some 9"
  by (simp add: offscale_eval extract_rating_eval) (simp add: offscale_cleaned_def clean_rating_def)

text \<open>
  C6, amended.  The rows of the cleaned table are the raw rows that line 126 keeps, in
  their order.  Every row of the cleaned table has a \<open>Rating\<close> that is not null, and it
  lies in \<open>[0, 5]\<close> whenever the raw rating of the row it comes from is null, a number in
  \<open>[0, 5]\<close>, or a string that \<open>float()\<close> rejects or reads as NaN or as a number in
  \<open>[0, 5]\<close>, whatever the ratings of the other rows.  \<open>clean_rating\<close> maps a missing
  rating to 0.0 and returns a number unchanged; \<open>extract_rating\<close> returns only values in
  \<open>[0, 5]\<close>.
\<close>

theorem rating_non_null_and_range:
  assumes "clean_data pf raw = (Inr out, saved)"
  shows "(\<forall>r\<in>set out. Rating r \<noteq> None) \<and>
         length out = length (kept_rows raw) \<and>
         (\<forall>i<length out. \<exists>v. Rating (out ! i) = Some v \<and>
            (rating_in_range pf (raw_Rating (kept_rows raw ! i)) \<longrightarrow> 0 \<le> v \<and> v \<le> 5)) \<and>
         clean_rating pf Null = Some 0 \<and> clean_rating pf (Num y) = Some y \<and>
         (extract_rating t = Some w \<longrightarrow> 0 \<le> w \<and> w \<le> 5)"
proof -
  from assms have out: "out = round_columns (derived_table pf raw)"
    by (simp add: clean_data_returns)
  have nn: "no_nulls out"
    by (simp add: out round_columns_no_nulls derived_table_eq derive_no_nulls)
  have 1: "\<forall>r\<in>set out. Rating r \<noteq> None"
    using nn by (simp add: no_nulls_def list_all_iff)
  have tab: "derived_table pf raw = derive (clean_columns pf (kept_rows raw))"
    by (simp only: derived_table_eq kept_columns)
  have cols: "map Rating (clean_columns pf (kept_rows raw))
      = map (\<lambda>x. clean_rating pf (raw_Rating x)) (kept_rows raw)"
    by (simp add: clean_columns_def comp_def)
  have "map Rating out
      = map (\<lambda>r. map_option round2 (Rating r)) (derive (clean_columns pf (kept_rows raw)))"
    by (simp only: out tab Rating_round_columns)
  also have "\<dots> = map (map_option round2) (map Rating (derive (clean_columns pf (kept_rows raw))))"
    by (simp add: comp_def)
  also have "\<dots> = map (map_option round2)
      (map (\<lambda>r. fillna 0 (Rating r)) (clean_columns pf (kept_rows raw)))"
    by (simp only: Rating_derive)
  also have "\<dots> = map (map_option round2) (map (fillna 0) (map Rating (clean_columns pf (kept_rows raw))))"
    by (simp add: comp_def)
  also have "\<dots> = map (\<lambda>x. map_option round2 (fillna 0 (clean_rating pf (raw_Rating x)))) (kept_rows raw)"
    by (simp only: cols) (simp add: comp_def)
  finally have ratings: "map Rating out
      = map (\<lambda>x. map_option round2 (fillna 0 (clean_rating pf (raw_Rating x)))) (kept_rows raw)" .
  then have len: "length out = length (kept_rows raw)"
    by (metis length_map)
  have 2: "\<exists>v. Rating (out ! i) = Some v \<and>
            (rating_in_range pf (raw_Rating (kept_rows raw ! i)) \<longrightarrow> 0 \<le> v \<and> v \<le> 5)"
    if i: "i < length out" for i
  proof -
    have "Rating (out ! i) = map Rating out ! i" using i by simp
    also have "\<dots> = map_option round2 (fillna 0 (clean_rating pf (raw_Rating (kept_rows raw ! i))))"
      using i len by (simp add: ratings)
    finally have r: "Rating (out ! i)
        = map_option round2 (fillna 0 (clean_rating pf (raw_Rating (kept_rows raw ! i))))" .
    obtain v0 where v0: "fillna 0 (clean_rating pf (raw_Rating (kept_rows raw ! i))) = Some v0"
      by (cases "clean_rating pf (raw_Rating (kept_rows raw ! i))") (simp_all add: fillna_def)
    have "0 \<le> round2 v0 \<and> round2 v0 \<le> 5"
      if "rating_in_range pf (raw_Rating (kept_rows raw ! i))"
      using clean_rating_range[OF that] v0 round2_range[of v0] by simp
    then show ?thesis by (simp add: r v0)
  qed
  show ?thesis
    using 1 len 2 extract_rating_range[of t w] by (simp add: clean_rating_def)
qed

text \<open>
  The theorem at a table whose first rating is 9 and whose second rating is 4.2, and at
  the rating text \<open>4.5\<close>.
\<close>

theorem rating_non_null_and_range_witness:
  "clean_data float_of_decimal offscale_raw = (Inr offscale_cleaned, Some offscale_cleaned) \<and>
   length offscale_cleaned = length (kept_rows offscale_raw) \<and>
   \<not> rating_in_range float_of_decimal (raw_Rating (kept_rows offscale_raw ! 0)) \<and>
   rating_in_range float_of_decimal (raw_Rating (kept_rows offscale_raw ! 1)) \<and>
   (\<exists>v. Rating (offscale_cleaned ! 1) = Some v \<and> 0 \<le> v \<and> v \<le> 5) \<and>
   clean_rating float_of_decimal Null = Some 0 \<and>
   clean_rating float_of_decimal (Num 4.8) = Some 4.8 \<and>
   extract_rating (u ''4.5'') = Some 4.5 \<and> (0::real) \<le> 4.5 \<and> (4.5::real) \<le> 5"
proof -
  have i: "1 < length offscale_cleaned" by (simp add: offscale_cleaned_def)
  have off: "\<not> rating_in_range float_of_decimal (raw_Rating (kept_rows offscale_raw ! 0))"
    by (simp add: offscale_kept) (simp add: offscale_raw_def rating_in_range_def)
  have ok: "rating_in_range float_of_decimal (raw_Rating (kept_rows offscale_raw ! 1))"
    by (simp add: offscale_kept) (simp add: offscale_raw_def rating_in_range_def)
  note t = rating_non_null_and_range[OF offscale_eval, where t = "u ''4.5''" and w = "4.5" and y = "4.8"]
  have 1: "\<exists>v. Rating (offscale_cleaned ! 1) = Some v \<and> 0 \<le> v \<and> v \<le> 5"
    using t i ok by blast
  have 2: "(0::real) \<le> 4.5 \<and> (4.5::real) \<le> 5"
    using t extract_rating_eval(1) by blast
  from t 1 2 off ok offscale_eval extract_rating_eval(1) show ?thesis
    by blast
qed

text \<open>
  C10. \<open>create_derived_features\<close> does not mutate its input: every frame of the heap is
  after the call what it was before, and the result is a newly allocated frame.  The
  result has as many rows as the input, in the same order, with the \<open>Category\<close>,
  \<open>ProductName\<close> and \<open>ProductURL\<close> of every row unchanged.
\<close>

theorem derived_features_frame:
  assumes "df < length h" and "create_derived_features h df = (h', out)"
  shows "(\<forall>a<length h. h' ! a = h ! a) \<and> out = length h \<and> length h' = length h + 1 \<and>
         length (h' ! out) = length (h ! df) \<and>
         map Category (h' ! out) = map Category (h ! df) \<and>
         map ProductName (h' ! out) = map ProductName (h ! df) \<and>
         map ProductURL (h' ! out) = map ProductURL (h ! df)"
  using assms by (auto simp: df_heap nth_append length_derive derive_text)

text \<open>
  The theorem at a frame of four rows, whose \<open>Rating\<close> column does change.
\<close>

theorem derived_features_frame_witness:
  "0 < length [shelf] \<and> create_derived_features [shelf] 0 = ([shelf, shelf_derived], 1) \<and>
   [shelf, shelf_derived] ! 0 = shelf \<and> length shelf_derived = length shelf \<and>
   map Category shelf_derived = map Category shelf \<and>
   map ProductName shelf_derived = map ProductName shelf \<and>
   map ProductURL shelf_derived = map ProductURL shelf \<and>
   map Rating shelf_derived \<noteq> map Rating shelf"
proof -
  have a: "0 < length [shelf]" by simp
  have diff: "map Rating shelf_derived \<noteq> map Rating shelf"
    by (simp add: shelf_derived_def shelf_def)
  from derived_features_frame[OF a shelf_heap] a shelf_heap diff
  show ?thesis by simp
qed

end
